theory Spec2Isabelle
  imports Complex_Main
begin

section \<open>Floating-point numbers\<close>

text \<open>
  Go's \<open>float64\<close> is the IEEE 754 binary64 format, and every arithmetic operation rounds
  its exact result to the nearest representable value, ties to the even significand. A
  float is a finite value, an infinity or NaN. The two zeros are identified: this changes
  no other value the program computes, since its divisors are the constants 100 and 12, a
  converted integer, and \<open>pow(...) - 1\<close>, none of which is the negative zero.

  \<open>ilog2 x\<close> is the binary exponent of a positive \<open>x\<close>, the \<open>e\<close> with
  \<open>2^e \<le> x < 2^(e+1)\<close>. \<open>round64\<close> rounds a real number: with the exponent \<open>e\<close>
  of the argument, at least -1022 (below that the values are subnormal), the representable
  values around it are the integer multiples of \<open>2^(e-52)\<close>; a rounded magnitude of
  \<open>2^1024\<close> or more overflows to the infinity of that sign.
\<close>

datatype float64 = Finite real | PosInf | NegInf | NaN

function ilog2 :: "real \<Rightarrow> int" where
  "ilog2 x =
     (if 2 \<le> x then ilog2 (x / 2) + 1
      else if 0 < x \<and> x < 1 then ilog2 (x * 2) - 1
      else 0)"
  by pat_completeness auto
termination
proof (relation "measure (\<lambda>x. if 1 \<le> x then nat \<lceil>x\<rceil> else nat \<lceil>1 / x\<rceil> + 2)")
  show "wf (measure (\<lambda>x. if 1 \<le> x then nat \<lceil>x\<rceil> else nat \<lceil>1 / x\<rceil> + 2))" by simp
next
  fix x :: real
  assume a: "2 \<le> x"
  have "\<lceil>x / 2\<rceil> \<le> \<lceil>x - 1\<rceil>" using a by (intro ceiling_mono) simp
  then have "\<lceil>x / 2\<rceil> < \<lceil>x\<rceil>" by simp
  moreover have "0 < \<lceil>x\<rceil>" using a by simp
  ultimately show "(x / 2, x) \<in> measure (\<lambda>x. if 1 \<le> x then nat \<lceil>x\<rceil> else nat \<lceil>1 / x\<rceil> + 2)"
    using a by simp
next
  fix x :: real
  assume a: "\<not> 2 \<le> x" and b: "0 < x \<and> x < 1"
  show "(x * 2, x) \<in> measure (\<lambda>x. if 1 \<le> x then nat \<lceil>x\<rceil> else nat \<lceil>1 / x\<rceil> + 2)"
  proof (cases "1 \<le> x * 2")
    case True
    have "x * 2 < 2" using b by simp
    then have "\<lceil>x * 2\<rceil> \<le> 2" by (simp add: ceiling_le_iff)
    moreover have "0 < \<lceil>1 / x\<rceil>" using b by simp
    ultimately have "nat \<lceil>x * 2\<rceil> < nat \<lceil>1 / x\<rceil> + 2" by linarith
    then show ?thesis using True b by simp
  next
    case False
    then have h: "2 \<le> 1 / x" using b by (simp add: field_simps)
    have "1 / (x * 2) = (1 / x) / 2" by simp
    moreover have "\<lceil>(1 / x) / 2\<rceil> \<le> \<lceil>1 / x - 1\<rceil>" using h by (intro ceiling_mono) simp
    ultimately have "\<lceil>1 / (x * 2)\<rceil> < \<lceil>1 / x\<rceil>" by simp
    moreover have "0 < \<lceil>1 / x\<rceil>" using b by simp
    ultimately show ?thesis using False b by simp
  qed
qed

declare ilog2.simps [simp del]

definition roundHalfEven :: "real \<Rightarrow> int" where
  "roundHalfEven q =
     (let f = \<lfloor>q\<rfloor>; d = q - of_int f
      in if d < 1 / 2 then f else if 1 / 2 < d then f + 1
         else if even f then f else f + 1)"

definition round64 :: "real \<Rightarrow> float64" where
  "round64 x =
     (let e = max (ilog2 \<bar>x\<bar>) (- 1022);
          u = 2 powi (e - 52);
          y = of_int (roundHalfEven (x / u)) * u
      in if 2 powi 1024 \<le> \<bar>y\<bar> then (if 0 < x then PosInf else NegInf) else Finite y)"

definition signedInf :: "bool \<Rightarrow> float64" where
  "signedInf positive = (if positive then PosInf else NegInf)"

fun fneg :: "float64 \<Rightarrow> float64" where
  "fneg (Finite x) = Finite (- x)"
| "fneg PosInf = NegInf"
| "fneg NegInf = PosInf"
| "fneg NaN = NaN"

fun fadd :: "float64 \<Rightarrow> float64 \<Rightarrow> float64" where
  "fadd (Finite x) (Finite y) = round64 (x + y)"
| "fadd NaN b = NaN"
| "fadd a NaN = NaN"
| "fadd PosInf NegInf = NaN"
| "fadd NegInf PosInf = NaN"
| "fadd PosInf b = PosInf"
| "fadd NegInf b = NegInf"
| "fadd a PosInf = PosInf"
| "fadd a NegInf = NegInf"

definition fsub :: "float64 \<Rightarrow> float64 \<Rightarrow> float64" where
  "fsub a b = fadd a (fneg b)"

fun fmul :: "float64 \<Rightarrow> float64 \<Rightarrow> float64" where
  "fmul (Finite x) (Finite y) = round64 (x * y)"
| "fmul NaN b = NaN"
| "fmul a NaN = NaN"
| "fmul PosInf (Finite y) = (if y = 0 then NaN else signedInf (0 < y))"
| "fmul NegInf (Finite y) = (if y = 0 then NaN else signedInf (y < 0))"
| "fmul (Finite x) PosInf = (if x = 0 then NaN else signedInf (0 < x))"
| "fmul (Finite x) NegInf = (if x = 0 then NaN else signedInf (x < 0))"
| "fmul PosInf PosInf = PosInf"
| "fmul NegInf NegInf = PosInf"
| "fmul PosInf NegInf = NegInf"
| "fmul NegInf PosInf = NegInf"

text \<open>
  Division: a finite non-zero value divided by zero is an infinity, zero by zero and
  infinity by infinity are NaN; no division panics.
\<close>

fun fdiv :: "float64 \<Rightarrow> float64 \<Rightarrow> float64" where
  "fdiv (Finite x) (Finite y) =
     (if y = 0 then (if x = 0 then NaN else signedInf (0 < x)) else round64 (x / y))"
| "fdiv NaN b = NaN"
| "fdiv a NaN = NaN"
| "fdiv (Finite x) PosInf = Finite 0"
| "fdiv (Finite x) NegInf = Finite 0"
| "fdiv PosInf (Finite y) = signedInf (0 \<le> y)"
| "fdiv NegInf (Finite y) = signedInf (y < 0)"
| "fdiv PosInf b = NaN"
| "fdiv NegInf b = NaN"

text \<open>The comparison \<open>x > 0\<close>; every comparison with NaN is false.\<close>

fun fgt0 :: "float64 \<Rightarrow> bool" where
  "fgt0 (Finite x) = (0 < x)"
| "fgt0 PosInf = True"
| "fgt0 NegInf = False"
| "fgt0 NaN = False"

text \<open>
  The conversion \<open>int(n)\<close> of a float truncates toward zero. For a value that an
  \<open>int\<close> of 64 bits cannot hold the result depends on the implementation; it is taken
  to be the smallest \<open>int\<close>, as on amd64. The program converts only floats that were
  converted from an \<open>int\<close>.
\<close>

definition truncate :: "real \<Rightarrow> int" where
  "truncate n = (if n \<ge> 0 then \<lfloor>n\<rfloor> else \<lceil>n\<rceil>)"

fun intOfFloat :: "float64 \<Rightarrow> int" where
  "intOfFloat (Finite v) =
     (if - (2 ^ 63) \<le> v \<and> v < 2 ^ 63 then truncate v else - (2 ^ 63))"
| "intOfFloat a = - (2 ^ 63)"

text \<open>The conversion \<open>float64(i)\<close> of an \<open>int\<close> rounds it.\<close>

definition floatOfInt :: "int \<Rightarrow> float64" where
  "floatOfInt i = round64 (of_int i)"

section \<open>Data model (internal/models)\<close>

text \<open>
  A \<open>primitive.ObjectID\<close> is an array of twelve bytes; a \<open>time.Time\<close> is kept as a
  count of milliseconds (the precision BSON stores). A Go \<open>int\<close> is an \<open>int\<close>;
  pointers that may be nil are options.

  The float fields that the program only reads and compares (\<open>Amount\<close>,
  \<open>DownPayment\<close>, \<open>InterestRate\<close>, the vehicle's \<open>Price\<close> and \<open>Mileage\<close>) hold a
  value decoded from JSON, which is always finite: they are the real number the float
  denotes, and comparing the reals is comparing the floats. The two fields the program
  computes, \<open>FinancedAmount\<close> and \<open>MonthlyPayment\<close>, are floats.

  Field names are the source's. Where a field name of another struct coincides with one of
  \<open>Transaction\<close>, it carries the name of its struct as a prefix.
\<close>

type_synonym ObjectID = "nat list"
type_synonym time = nat

definition NilObjectID :: ObjectID where
  "NilObjectID = replicate 12 0"

definition TransactionStatusPending :: string where
  "TransactionStatusPending = ''pending''"
definition TransactionStatusCompleted :: string where
  "TransactionStatusCompleted = ''completed''"
definition TransactionStatusCancelled :: string where
  "TransactionStatusCancelled = ''cancelled''"
definition TransactionStatusFailed :: string where
  "TransactionStatusFailed = ''failed''"

definition TransactionTypePurchase :: string where
  "TransactionTypePurchase = ''purchase''"
definition TransactionTypeSale :: string where
  "TransactionTypeSale = ''sale''"

definition PaymentMethodCash :: string where
  "PaymentMethodCash = ''cash''"
definition PaymentMethodBankTransfer :: string where
  "PaymentMethodBankTransfer = ''bank_transfer''"
definition PaymentMethodCard :: string where
  "PaymentMethodCard = ''card''"
definition PaymentMethodFinancing :: string where
  "PaymentMethodFinancing = ''financing''"

definition VehicleStatusActive :: string where
  "VehicleStatusActive = ''active''"
definition VehicleStatusSold :: string where
  "VehicleStatusSold = ''sold''"
definition VehicleStatusArchived :: string where
  "VehicleStatusArchived = ''archived''"

record PaymentDetails =
  TransactionReference :: string
  PaidAt :: "time option"
  DownPayment :: real
  FinancedAmount :: float64
  MonthlyPayment :: float64
  FinancingTerms :: int
  InterestRate :: real
  BankName :: string
  AccountNumber :: string
  CardLast4 :: string
  CardBrand :: string

record Transaction =
  ID :: ObjectID
  VehicleID :: ObjectID
  SellerID :: ObjectID
  BuyerID :: ObjectID
  Type :: string
  Status :: string
  Amount :: real
  Currency :: string
  PaymentMethod :: string
  PaymentDetails :: PaymentDetails
  InspectionID :: "ObjectID option"
  Notes :: string
  CompletedAt :: "time option"
  CancelledAt :: "time option"
  CreatedAt :: time
  UpdatedAt :: time

record CreateTransactionRequest =
  CreateReq_VehicleID :: string
  CreateReq_BuyerID :: string
  CreateReq_Amount :: real
  CreateReq_Currency :: string
  CreateReq_PaymentMethod :: string
  CreateReq_InspectionID :: string
  CreateReq_Notes :: string
  CreateReq_PaymentDetails :: PaymentDetails

record UpdateTransactionRequest =
  UpdateReq_Status :: string
  UpdateReq_PaymentDetails :: "PaymentDetails option"
  UpdateReq_Notes :: string

record CompleteTransactionRequest =
  CompleteReq_TransactionReference :: string
  CompleteReq_Notes :: string

record Location =
  City :: string
  State :: string
  Country :: string

record VehicleImage =
  URL :: string
  PublicID :: string
  IsPrimary :: bool

record VehicleMeta =
  Color :: string
  Transmission :: string
  FuelType :: string

record Vehicle =
  Vehicle_ID :: ObjectID
  OwnerID :: ObjectID
  Make :: string
  Model :: string
  Year :: int
  Price :: real
  Mileage :: real
  Vehicle_Status :: string
  Vehicle_Location :: Location
  Images :: "VehicleImage list"
  Meta :: VehicleMeta
  Vehicle_CreatedAt :: time
  Vehicle_UpdatedAt :: time

subsection \<open>Errors\<close>

text \<open>
  The services build their errors with \<open>errors.New\<close> and the handlers compare the
  message. \<open>ErrNoDocuments\<close> is the driver's sentinel for an empty result;
  \<open>DriverError\<close> is any other failure of a call to the store (connection lost, deadline
  exceeded, write rejected), and \<open>BindingError\<close> a failure of gin's request binding.
\<close>

datatype error = ErrorsNew string | ErrNoDocuments | DriverError | BindingError

subsection \<open>Object identifiers in hexadecimal\<close>

text \<open>
  \<open>primitive.ObjectIDFromHex\<close> of the MongoDB driver: the string must have exactly 24
  characters, all hexadecimal digits of either case; two digits make a byte.
\<close>

definition fromHexChar :: "char \<Rightarrow> nat option" where
  "fromHexChar c =
     (let n = of_char c :: nat in
      if 48 \<le> n \<and> n \<le> 57 then Some (n - 48)
      else if 97 \<le> n \<and> n \<le> 102 then Some (n - 97 + 10)
      else if 65 \<le> n \<and> n \<le> 70 then Some (n - 65 + 10)
      else None)"

fun hexDecode :: "string \<Rightarrow> nat list option" where
  "hexDecode [] = Some []"
| "hexDecode [c] = None"
| "hexDecode (a # b # cs) =
     (case fromHexChar a of None \<Rightarrow> None
      | Some hi \<Rightarrow>
        (case fromHexChar b of None \<Rightarrow> None
         | Some lo \<Rightarrow>
           (case hexDecode cs of None \<Rightarrow> None
            | Some bs \<Rightarrow> Some ((hi * 16 + lo) # bs))))"

definition ObjectIDFromHex :: "string \<Rightarrow> ObjectID option" where
  "ObjectIDFromHex s = (if length s \<noteq> 24 then None else hexDecode s)"

definition IsValidObjectID :: "string \<Rightarrow> bool" where
  "IsValidObjectID s = (ObjectIDFromHex s \<noteq> None)"

subsection \<open>Request validation\<close>

text \<open>
  The three \<open>IsValid...\<close> functions run the same loop over a slice of constants and
  return true at the first element equal to the argument.
\<close>

fun rangeContains :: "string list \<Rightarrow> string \<Rightarrow> bool" where
  "rangeContains [] x = False"
| "rangeContains (s # ss) x = (if x = s then True else rangeContains ss x)"

definition IsValidTransactionStatus :: "string \<Rightarrow> bool" where
  "IsValidTransactionStatus status =
     rangeContains [TransactionStatusPending, TransactionStatusCompleted,
                    TransactionStatusCancelled, TransactionStatusFailed] status"

definition IsValidTransactionType :: "string \<Rightarrow> bool" where
  "IsValidTransactionType txnType =
     rangeContains [TransactionTypePurchase, TransactionTypeSale] txnType"

definition IsValidPaymentMethod :: "string \<Rightarrow> bool" where
  "IsValidPaymentMethod method =
     rangeContains [PaymentMethodCash, PaymentMethodBankTransfer,
                    PaymentMethodCard, PaymentMethodFinancing] method"

text \<open>The validators return \<open>None\<close> for Go's \<open>nil\<close> and \<open>Some e\<close> for an error.\<close>

definition validatePaymentDetails :: "CreateTransactionRequest \<Rightarrow> error option" where
  "validatePaymentDetails r =
     (if CreateReq_PaymentMethod r = PaymentMethodFinancing then
        (if DownPayment (CreateReq_PaymentDetails r) \<le> 0
           then Some (ErrorsNew ''downPayment is required for financing'')
         else if DownPayment (CreateReq_PaymentDetails r) \<ge> CreateReq_Amount r
           then Some (ErrorsNew ''downPayment must be less than total amount'')
         else if FinancingTerms (CreateReq_PaymentDetails r) \<le> 0
           then Some (ErrorsNew ''financingTerms is required for financing'')
         else if InterestRate (CreateReq_PaymentDetails r) < 0
           then Some (ErrorsNew ''interestRate cannot be negative'')
         else None)
      else if CreateReq_PaymentMethod r = PaymentMethodBankTransfer then
        (if BankName (CreateReq_PaymentDetails r) = ''''
           then Some (ErrorsNew ''bankName is required for bank transfer'')
         else None)
      else None)"

definition Validate_Create :: "CreateTransactionRequest \<Rightarrow> error option" where
  "Validate_Create r =
     (if CreateReq_VehicleID r = '''' then Some (ErrorsNew ''vehicleId is required'')
      else if \<not> IsValidObjectID (CreateReq_VehicleID r)
        then Some (ErrorsNew ''invalid vehicleId format'')
      else if CreateReq_BuyerID r = '''' then Some (ErrorsNew ''buyerId is required'')
      else if \<not> IsValidObjectID (CreateReq_BuyerID r)
        then Some (ErrorsNew ''invalid buyerId format'')
      else if CreateReq_Amount r \<le> 0 then Some (ErrorsNew ''amount must be greater than 0'')
      else if CreateReq_Currency r = '''' then Some (ErrorsNew ''currency is required'')
      else if CreateReq_PaymentMethod r = ''''
        then Some (ErrorsNew ''paymentMethod is required'')
      else if \<not> IsValidPaymentMethod (CreateReq_PaymentMethod r)
        then Some (ErrorsNew ''invalid paymentMethod value'')
      else if CreateReq_InspectionID r \<noteq> '''' \<and> \<not> IsValidObjectID (CreateReq_InspectionID r)
        then Some (ErrorsNew ''invalid inspectionId format'')
      else validatePaymentDetails r)"

definition Validate_Update :: "UpdateTransactionRequest \<Rightarrow> error option" where
  "Validate_Update r =
     (if UpdateReq_Status r \<noteq> '''' \<and> \<not> IsValidTransactionStatus (UpdateReq_Status r)
        then Some (ErrorsNew ''invalid status value'')
      else None)"

definition Validate_Complete :: "CompleteTransactionRequest \<Rightarrow> error option" where
  "Validate_Complete r =
     (if CompleteReq_TransactionReference r = ''''
        then Some (ErrorsNew ''transactionReference is required'')
      else None)"

section \<open>The store\<close>

text \<open>
  Two collections, each a map from \<open>_id\<close> to document. Every call of the driver may
  fail: the services take a predicate \<open>faulty\<close> that says, for each call site, whether
  the driver returns an error there; a failed call changes nothing in the store.
\<close>

record db =
  transactions :: "ObjectID \<rightharpoonup> Transaction"
  vehicles :: "ObjectID \<rightharpoonup> Vehicle"

datatype dbcall =
  VehicleFindOne | TxnInsertOne | TxnFindOne | ClientStartSession
  | TxnFindOneAndUpdate | VehicleUpdateOne

definition FindOne :: "bool \<Rightarrow> (ObjectID \<rightharpoonup> 'a) \<Rightarrow> ObjectID \<Rightarrow> error + 'a" where
  "FindOne fault coll oid =
     (if fault then Inl DriverError
      else case coll oid of None \<Rightarrow> Inl ErrNoDocuments | Some d \<Rightarrow> Inr d)"

text \<open>
  \<open>InsertOne\<close> of a document whose \<open>_id\<close> is omitted: the driver assigns the
  identifier \<open>newID\<close>; an identifier already in the collection is a duplicate-key error.
  \<open>setID\<close> writes the identifier into the stored document.
\<close>

definition InsertOne ::
  "bool \<Rightarrow> (ObjectID \<rightharpoonup> 'a) \<Rightarrow> ObjectID \<Rightarrow> (ObjectID \<Rightarrow> 'a \<Rightarrow> 'a) \<Rightarrow> 'a
     \<Rightarrow> (ObjectID \<rightharpoonup> 'a) \<times> (error + ObjectID)" where
  "InsertOne fault coll newID setID d =
     (if fault \<or> coll newID \<noteq> None then (coll, Inl DriverError)
      else (coll(newID \<mapsto> setID newID d), Inr newID))"

text \<open>
  \<open>FindOneAndUpdate\<close> with \<open>ReturnDocument(After)\<close>: the update \<open>upd\<close> is applied to
  the document with the given \<open>_id\<close> and the updated document is returned.
\<close>

definition FindOneAndUpdate ::
  "bool \<Rightarrow> (ObjectID \<rightharpoonup> 'a) \<Rightarrow> ObjectID \<Rightarrow> ('a \<Rightarrow> 'a)
     \<Rightarrow> (ObjectID \<rightharpoonup> 'a) \<times> (error + 'a)" where
  "FindOneAndUpdate fault coll oid upd =
     (if fault then (coll, Inl DriverError)
      else case coll oid of
             None \<Rightarrow> (coll, Inl ErrNoDocuments)
           | Some d \<Rightarrow> (coll(oid \<mapsto> upd d), Inr (upd d)))"

text \<open>
  \<open>UpdateOne\<close> returns the number of documents matched; matching none is not an error.
\<close>

definition UpdateOne ::
  "bool \<Rightarrow> (ObjectID \<rightharpoonup> 'a) \<Rightarrow> ObjectID \<Rightarrow> ('a \<Rightarrow> 'a)
     \<Rightarrow> (ObjectID \<rightharpoonup> 'a) \<times> (error + nat)" where
  "UpdateOne fault coll oid upd =
     (if fault then (coll, Inl DriverError)
      else case coll oid of
             None \<Rightarrow> (coll, Inr 0)
           | Some d \<Rightarrow> (coll(oid \<mapsto> upd d), Inr 1))"

section \<open>Transaction service (internal/service/transaction\_service.go)\<close>

subsection \<open>Financing\<close>

text \<open>
  \<open>pow\<close> multiplies \<open>result\<close> by \<open>x\<close> while \<open>i < int(n)\<close>, each product
  rounded. \<open>calculateFinancingDetails\<close> reads the amount, the down payment, the rate
  and the term of the transaction and writes the financed amount and the monthly payment,
  every operation being the float operation of the source in the source's order.
\<close>

function pow_loop :: "float64 \<Rightarrow> int \<Rightarrow> int \<Rightarrow> float64 \<Rightarrow> float64" where
  "pow_loop x bound i result =
     (if i < bound then pow_loop x bound (i + 1) (fmul result x) else result)"
  by pat_completeness auto
termination
  by (relation "measure (\<lambda>(x, bound, i, result). nat (bound - i))") auto

declare pow_loop.simps [simp del]

definition pow :: "float64 \<Rightarrow> float64 \<Rightarrow> float64" where
  "pow x n = pow_loop x (intOfFloat n) 0 (Finite 1.0)"

definition calculateFinancingDetails :: "Transaction \<Rightarrow> Transaction" where
  "calculateFinancingDetails txn =
     (let financed =
            fsub (Finite (Amount txn)) (Finite (DownPayment (PaymentDetails txn)));
          principal = financed;
          monthlyInterestRate =
            fdiv (fdiv (Finite (InterestRate (PaymentDetails txn))) (Finite 100)) (Finite 12);
          months = floatOfInt (FinancingTerms (PaymentDetails txn));
          monthlyPayment =
            (if fgt0 monthlyInterestRate then
               fdiv
                 (fmul principal
                    (fmul monthlyInterestRate
                       (pow (fadd (Finite 1) monthlyInterestRate) months)))
                 (fsub (pow (fadd (Finite 1) monthlyInterestRate) months) (Finite 1))
             else fdiv principal months)
      in txn\<lparr>PaymentDetails :=
           (PaymentDetails txn)\<lparr>FinancedAmount := financed,
                                  MonthlyPayment := monthlyPayment\<rparr>\<rparr>)"

subsection \<open>CreateTransaction\<close>

definition setTransactionID :: "ObjectID \<Rightarrow> Transaction \<Rightarrow> Transaction" where
  "setTransactionID oid t = t\<lparr>ID := oid\<rparr>"

definition CreateTransaction ::
  "(dbcall \<Rightarrow> bool) \<Rightarrow> db \<Rightarrow> CreateTransactionRequest \<Rightarrow> ObjectID \<Rightarrow> time \<Rightarrow> ObjectID
     \<Rightarrow> db \<times> (error + Transaction)" where
  "CreateTransaction faulty s req sellerID now newID =
     (case ObjectIDFromHex (CreateReq_VehicleID req) of
        None \<Rightarrow> (s, Inl (ErrorsNew ''invalid vehicleId''))
      | Some vehicleID \<Rightarrow>
     (case ObjectIDFromHex (CreateReq_BuyerID req) of
        None \<Rightarrow> (s, Inl (ErrorsNew ''invalid buyerId''))
      | Some buyerID \<Rightarrow>
     (case FindOne (faulty VehicleFindOne) (vehicles s) vehicleID of
        Inl e \<Rightarrow>
          (s, Inl (if e = ErrNoDocuments then ErrorsNew ''vehicle not found'' else e))
      | Inr vehicle \<Rightarrow>
          if OwnerID vehicle \<noteq> sellerID
            then (s, Inl (ErrorsNew ''you are not the owner of this vehicle''))
          else if Vehicle_Status vehicle \<noteq> VehicleStatusActive
            then (s, Inl (ErrorsNew ''vehicle is not available for sale''))
          else if buyerID = sellerID
            then (s, Inl (ErrorsNew ''cannot create transaction with yourself''))
          else
            (let transaction =
                   \<lparr>ID = NilObjectID, VehicleID = vehicleID, SellerID = sellerID,
                    BuyerID = buyerID, Type = TransactionTypeSale,
                    Status = TransactionStatusPending, Amount = CreateReq_Amount req,
                    Currency = CreateReq_Currency req,
                    PaymentMethod = CreateReq_PaymentMethod req,
                    PaymentDetails = CreateReq_PaymentDetails req,
                    InspectionID = None, Notes = CreateReq_Notes req,
                    CompletedAt = None, CancelledAt = None,
                    CreatedAt = now, UpdatedAt = now\<rparr>
             in case (if CreateReq_InspectionID req \<noteq> ''''
                      then (case ObjectIDFromHex (CreateReq_InspectionID req) of
                              None \<Rightarrow> Inl (ErrorsNew ''invalid inspectionId'')
                            | Some inspectionID \<Rightarrow>
                                Inr (transaction\<lparr>InspectionID := Some inspectionID\<rparr>))
                      else Inr transaction) of
                  Inl e \<Rightarrow> (s, Inl e)
                | Inr transaction \<Rightarrow>
                    (let transaction =
                           (if CreateReq_PaymentMethod req = PaymentMethodFinancing
                            then calculateFinancingDetails transaction else transaction)
                     in case InsertOne (faulty TxnInsertOne) (transactions s) newID
                               setTransactionID transaction of
                          (ts, Inl e) \<Rightarrow> (s, Inl e)
                        | (ts, Inr insertedID) \<Rightarrow>
                            (s\<lparr>transactions := ts\<rparr>,
                             Inr (transaction\<lparr>ID := insertedID\<rparr>)))))))"

subsection \<open>UpdateTransaction\<close>

text \<open>The \<open>$set\<close> document of the update, as the change it makes to the stored record.\<close>

definition updateSet :: "UpdateTransactionRequest \<Rightarrow> time \<Rightarrow> Transaction \<Rightarrow> Transaction" where
  "updateSet req now t =
     (let t = t\<lparr>UpdatedAt := now\<rparr>;
          t = (if UpdateReq_Status req \<noteq> '''' then t\<lparr>Status := UpdateReq_Status req\<rparr> else t);
          t = (case UpdateReq_PaymentDetails req of
                 Some pd \<Rightarrow> t\<lparr>PaymentDetails := pd\<rparr> | None \<Rightarrow> t);
          t = (if UpdateReq_Notes req \<noteq> '''' then t\<lparr>Notes := UpdateReq_Notes req\<rparr> else t)
      in t)"

definition UpdateTransaction ::
  "(dbcall \<Rightarrow> bool) \<Rightarrow> db \<Rightarrow> string \<Rightarrow> UpdateTransactionRequest \<Rightarrow> ObjectID \<Rightarrow> time
     \<Rightarrow> db \<times> (error + Transaction)" where
  "UpdateTransaction faulty s idHex req userID now =
     (case ObjectIDFromHex idHex of
        None \<Rightarrow> (s, Inl (ErrorsNew ''invalid transaction ID''))
      | Some objectID \<Rightarrow>
     (case FindOne (faulty TxnFindOne) (transactions s) objectID of
        Inl e \<Rightarrow>
          (s, Inl (if e = ErrNoDocuments then ErrorsNew ''transaction not found'' else e))
      | Inr existingTxn \<Rightarrow>
          if SellerID existingTxn \<noteq> userID \<and> BuyerID existingTxn \<noteq> userID
            then (s, Inl (ErrorsNew ''you are not authorized to update this transaction''))
          else
            (case FindOneAndUpdate (faulty TxnFindOneAndUpdate) (transactions s) objectID
                    (updateSet req now) of
               (ts, Inl e) \<Rightarrow> (s\<lparr>transactions := ts\<rparr>, Inl e)
             | (ts, Inr transaction) \<Rightarrow> (s\<lparr>transactions := ts\<rparr>, Inr transaction))))"

subsection \<open>CompleteTransaction\<close>

definition completeSet :: "CompleteTransactionRequest \<Rightarrow> time \<Rightarrow> Transaction \<Rightarrow> Transaction" where
  "completeSet req now t =
     (let t = t\<lparr>Status := TransactionStatusCompleted,
                 CompletedAt := Some now,
                 UpdatedAt := now,
                 PaymentDetails :=
                   (PaymentDetails t)\<lparr>TransactionReference :=
                                          CompleteReq_TransactionReference req,
                                        PaidAt := Some now\<rparr>\<rparr>
      in if CompleteReq_Notes req \<noteq> '''' then t\<lparr>Notes := CompleteReq_Notes req\<rparr> else t)"

definition vehicleSet :: "ObjectID \<Rightarrow> time \<Rightarrow> Vehicle \<Rightarrow> Vehicle" where
  "vehicleSet buyer now v =
     v\<lparr>OwnerID := buyer, Vehicle_Status := VehicleStatusSold, Vehicle_UpdatedAt := now\<rparr>"

text \<open>
  \<open>mongo.WithSession\<close> binds the session to the context and runs the callback. The
  callback of \<open>CompleteTransaction\<close> calls neither \<open>StartTransaction\<close> nor
  \<open>CommitTransaction\<close> nor \<open>AbortTransaction\<close> (and the service does not use
  \<open>session.WithTransaction\<close>), so each write of the callback is applied to the store on
  its own, and an error returned by the callback undoes nothing.
\<close>

definition WithSession :: "(db \<Rightarrow> db \<times> (error + 'a)) \<Rightarrow> db \<Rightarrow> db \<times> (error + 'a)" where
  "WithSession fn s = fn s"

definition completeCallback ::
  "(dbcall \<Rightarrow> bool) \<Rightarrow> ObjectID \<Rightarrow> CompleteTransactionRequest \<Rightarrow> time \<Rightarrow> db
     \<Rightarrow> db \<times> (error + Transaction)" where
  "completeCallback faulty objectID req now s =
     (case FindOneAndUpdate (faulty TxnFindOneAndUpdate) (transactions s) objectID
             (completeSet req now) of
        (ts, Inl e) \<Rightarrow> (s\<lparr>transactions := ts\<rparr>, Inl e)
      | (ts, Inr transaction) \<Rightarrow>
          (case UpdateOne (faulty VehicleUpdateOne) (vehicles s) (VehicleID transaction)
                  (vehicleSet (BuyerID transaction) now) of
             (vs, Inl e) \<Rightarrow> (s\<lparr>transactions := ts, vehicles := vs\<rparr>, Inl e)
           | (vs, Inr matched) \<Rightarrow> (s\<lparr>transactions := ts, vehicles := vs\<rparr>, Inr transaction)))"

definition CompleteTransaction ::
  "(dbcall \<Rightarrow> bool) \<Rightarrow> db \<Rightarrow> string \<Rightarrow> CompleteTransactionRequest \<Rightarrow> ObjectID \<Rightarrow> time
     \<Rightarrow> db \<times> (error + Transaction)" where
  "CompleteTransaction faulty s idHex req userID now =
     (case ObjectIDFromHex idHex of
        None \<Rightarrow> (s, Inl (ErrorsNew ''invalid transaction ID''))
      | Some objectID \<Rightarrow>
     (case FindOne (faulty TxnFindOne) (transactions s) objectID of
        Inl e \<Rightarrow>
          (s, Inl (if e = ErrNoDocuments then ErrorsNew ''transaction not found'' else e))
      | Inr transaction \<Rightarrow>
          if SellerID transaction \<noteq> userID
            then (s, Inl (ErrorsNew ''only the seller can complete this transaction''))
          else if Status transaction \<noteq> TransactionStatusPending
            then (s, Inl (ErrorsNew ''transaction is not pending''))
          else if faulty ClientStartSession then (s, Inl DriverError)
          else WithSession (completeCallback faulty objectID req now) s))"

subsection \<open>CancelTransaction\<close>

definition cancelSet :: "string \<Rightarrow> time \<Rightarrow> Transaction \<Rightarrow> Transaction" where
  "cancelSet notes now t =
     (let t = t\<lparr>Status := TransactionStatusCancelled, CancelledAt := Some now,
                 UpdatedAt := now\<rparr>
      in if notes \<noteq> '''' then t\<lparr>Notes := notes\<rparr> else t)"

definition CancelTransaction ::
  "(dbcall \<Rightarrow> bool) \<Rightarrow> db \<Rightarrow> string \<Rightarrow> string \<Rightarrow> ObjectID \<Rightarrow> time
     \<Rightarrow> db \<times> (error + Transaction)" where
  "CancelTransaction faulty s idHex notes userID now =
     (case ObjectIDFromHex idHex of
        None \<Rightarrow> (s, Inl (ErrorsNew ''invalid transaction ID''))
      | Some objectID \<Rightarrow>
     (case FindOne (faulty TxnFindOne) (transactions s) objectID of
        Inl e \<Rightarrow>
          (s, Inl (if e = ErrNoDocuments then ErrorsNew ''transaction not found'' else e))
      | Inr transaction \<Rightarrow>
          if SellerID transaction \<noteq> userID \<and> BuyerID transaction \<noteq> userID
            then (s, Inl (ErrorsNew ''you are not authorized to cancel this transaction''))
          else if Status transaction \<noteq> TransactionStatusPending
            then (s, Inl (ErrorsNew ''only pending transactions can be cancelled''))
          else
            (case FindOneAndUpdate (faulty TxnFindOneAndUpdate) (transactions s) objectID
                    (cancelSet notes now) of
               (ts, Inl e) \<Rightarrow> (s\<lparr>transactions := ts\<rparr>, Inl e)
             | (ts, Inr transaction) \<Rightarrow> (s\<lparr>transactions := ts\<rparr>, Inr transaction))))"

section \<open>Handlers (internal/handlers/transaction\_handler.go)\<close>

text \<open>
  A handler receives the decoded request body and the user identifier that the
  authentication middleware left in the context (\<open>GetUserID\<close>, the empty string when
  absent), and answers with a status code and a body: the error or the transaction.
  \<open>ShouldBindJSON\<close> enforces the \<open>binding:"required"\<close> tags, which reject the zero
  value of a field. The handlers compare the message of the service's error with fixed
  strings; the message of a driver error is taken to be none of them. The body is the
  value handed to \<open>c.JSON\<close>; its encoding is not part of the model.
\<close>

type_synonym response = "nat \<times> (error + Transaction)"

definition StatusOK :: nat where "StatusOK = 200"
definition StatusCreated :: nat where "StatusCreated = 201"
definition StatusBadRequest :: nat where "StatusBadRequest = 400"
definition StatusUnauthorized :: nat where "StatusUnauthorized = 401"
definition StatusForbidden :: nat where "StatusForbidden = 403"
definition StatusNotFound :: nat where "StatusNotFound = 404"
definition StatusInternalServerError :: nat where "StatusInternalServerError = 500"

definition bindCreate :: "CreateTransactionRequest \<Rightarrow> bool" where
  "bindCreate req =
     (CreateReq_VehicleID req \<noteq> '''' \<and> CreateReq_BuyerID req \<noteq> '''' \<and>
      CreateReq_Amount req \<noteq> 0 \<and> CreateReq_Currency req \<noteq> '''' \<and>
      CreateReq_PaymentMethod req \<noteq> '''')"

definition createErrorStatus :: "error \<Rightarrow> nat" where
  "createErrorStatus err =
     (if err = ErrorsNew ''vehicle not found'' \<or>
         err = ErrorsNew ''you are not the owner of this vehicle''
        then StatusForbidden
      else if err = ErrorsNew ''vehicle is not available for sale'' \<or>
              err = ErrorsNew ''cannot create transaction with yourself''
        then StatusBadRequest
      else StatusInternalServerError)"

definition CreateTransaction_handler ::
  "(dbcall \<Rightarrow> bool) \<Rightarrow> db \<Rightarrow> CreateTransactionRequest \<Rightarrow> string \<Rightarrow> time \<Rightarrow> ObjectID
     \<Rightarrow> db \<times> response" where
  "CreateTransaction_handler faulty s req userIDStr now newID =
     (if \<not> bindCreate req then (s, (StatusBadRequest, Inl BindingError))
      else case Validate_Create req of
        Some err \<Rightarrow> (s, (StatusBadRequest, Inl err))
      | None \<Rightarrow>
          if userIDStr = '''' then (s, (StatusUnauthorized, Inl (ErrorsNew ''unauthorized'')))
          else case ObjectIDFromHex userIDStr of
            None \<Rightarrow> (s, (StatusBadRequest, Inl (ErrorsNew ''invalid user ID'')))
          | Some sellerID \<Rightarrow>
              (case CreateTransaction faulty s req sellerID now newID of
                 (s', Inl err) \<Rightarrow> (s', (createErrorStatus err, Inl err))
               | (s', Inr transaction) \<Rightarrow> (s', (StatusCreated, Inr transaction))))"



definition completeErrorStatus :: "error \<Rightarrow> nat" where
  "completeErrorStatus err =
     (if err = ErrorsNew ''transaction not found'' then StatusNotFound
      else if err = ErrorsNew ''only the seller can complete this transaction''
        then StatusForbidden
      else if err = ErrorsNew ''transaction is not pending'' then StatusBadRequest
      else StatusInternalServerError)"

definition CompleteTransaction_handler ::
  "(dbcall \<Rightarrow> bool) \<Rightarrow> db \<Rightarrow> string \<Rightarrow> CompleteTransactionRequest \<Rightarrow> string \<Rightarrow> time
     \<Rightarrow> db \<times> response" where
  "CompleteTransaction_handler faulty s idHex req userIDStr now =
     (case Validate_Complete req of
        Some err \<Rightarrow> (s, (StatusBadRequest, Inl err))
      | None \<Rightarrow>
          if userIDStr = '''' then (s, (StatusUnauthorized, Inl (ErrorsNew ''unauthorized'')))
          else case ObjectIDFromHex userIDStr of
            None \<Rightarrow> (s, (StatusBadRequest, Inl (ErrorsNew ''invalid user ID'')))
          | Some userID \<Rightarrow>
              (case CompleteTransaction faulty s idHex req userID now of
                 (s', Inl err) \<Rightarrow> (s', (completeErrorStatus err, Inl err))
               | (s', Inr transaction) \<Rightarrow> (s', (StatusOK, Inr transaction))))"

definition cancelErrorStatus :: "error \<Rightarrow> nat" where
  "cancelErrorStatus err =
     (if err = ErrorsNew ''transaction not found'' then StatusNotFound
      else if err = ErrorsNew ''you are not authorized to cancel this transaction''
        then StatusForbidden
      else if err = ErrorsNew ''only pending transactions can be cancelled''
        then StatusBadRequest
      else StatusInternalServerError)"

definition CancelTransaction_handler ::
  "(dbcall \<Rightarrow> bool) \<Rightarrow> db \<Rightarrow> string \<Rightarrow> string \<Rightarrow> string \<Rightarrow> time \<Rightarrow> db \<times> response" where
  "CancelTransaction_handler faulty s idHex notes userIDStr now =
     (if userIDStr = '''' then (s, (StatusUnauthorized, Inl (ErrorsNew ''unauthorized'')))
      else case ObjectIDFromHex userIDStr of
        None \<Rightarrow> (s, (StatusBadRequest, Inl (ErrorsNew ''invalid user ID'')))
      | Some userID \<Rightarrow>
          (case CancelTransaction faulty s idHex notes userID now of
             (s', Inl err) \<Rightarrow> (s', (cancelErrorStatus err, Inl err))
           | (s', Inr transaction) \<Rightarrow> (s', (StatusOK, Inr transaction))))"

section \<open>Sequences of calls\<close>

text \<open>
  A call of one of the four mutating operations of the service, with everything the
  operation receives: the faults of the store during the call, the arguments, the clock,
  and for \<open>Create\<close> the identifier the driver assigns.
\<close>

datatype call =
    Create "dbcall \<Rightarrow> bool" CreateTransactionRequest ObjectID time ObjectID
  | Update "dbcall \<Rightarrow> bool" string UpdateTransactionRequest ObjectID time
  | Complete "dbcall \<Rightarrow> bool" string CompleteTransactionRequest ObjectID time
  | Cancel "dbcall \<Rightarrow> bool" string string ObjectID time

fun step :: "db \<Rightarrow> call \<Rightarrow> db" where
  "step s (Create faulty req sellerID now newID) =
     fst (CreateTransaction faulty s req sellerID now newID)"
| "step s (Update faulty idHex req userID now) =
     fst (UpdateTransaction faulty s idHex req userID now)"
| "step s (Complete faulty idHex req userID now) =
     fst (CompleteTransaction faulty s idHex req userID now)"
| "step s (Cancel faulty idHex notes userID now) =
     fst (CancelTransaction faulty s idHex notes userID now)"

fun run :: "db \<Rightarrow> call list \<Rightarrow> db" where
  "run s [] = s"
| "run s (c # cs) = run (step s c) cs"

text \<open>Whether a call is an \<open>Update\<close> whose request carries the given status.\<close>

fun updatesStatusTo :: "string \<Rightarrow> call \<Rightarrow> bool" where
  "updatesStatusTo st (Update faulty idHex req userID now) = (UpdateReq_Status req = st)"
| "updatesStatusTo st _ = False"


text \<open>Every stored transaction has a status among the given ones.\<close>

definition statusesIn :: "string set \<Rightarrow> db \<Rightarrow> bool" where
  "statusesIn S s = (\<forall>oid t. transactions s oid = Some t \<longrightarrow> Status t \<in> S)"

section \<open>An example store\<close>

text \<open>
  The scenario of the specification: seller S owns the active vehicle V and has a pending
  cash sale of 25000 to buyer B; a third user is party to nothing.
\<close>

definition noFault :: "dbcall \<Rightarrow> bool" where
  "noFault c = False"

definition exSellerHex :: string where "exSellerHex = ''000000000000000000000001''"
definition exBuyerHex :: string where "exBuyerHex = ''000000000000000000000002''"
definition exOtherHex :: string where "exOtherHex = ''000000000000000000000003''"
definition exVehicleHex :: string where "exVehicleHex = ''00000000000000000000000a''"
definition exTxnHex :: string where "exTxnHex = ''00000000000000000000000B''"
definition exAbsentHex :: string where "exAbsentHex = ''0000000000000000000000ff''"

definition exSeller :: ObjectID where "exSeller = [0,0,0,0,0,0,0,0,0,0,0,1]"
definition exBuyer :: ObjectID where "exBuyer = [0,0,0,0,0,0,0,0,0,0,0,2]"
definition exOther :: ObjectID where "exOther = [0,0,0,0,0,0,0,0,0,0,0,3]"
definition exVehicleID :: ObjectID where "exVehicleID = [0,0,0,0,0,0,0,0,0,0,0,10]"
definition exTxnID :: ObjectID where "exTxnID = [0,0,0,0,0,0,0,0,0,0,0,11]"
definition exAbsentID :: ObjectID where "exAbsentID = [0,0,0,0,0,0,0,0,0,0,0,255]"

definition exNoDetails :: PaymentDetails where
  "exNoDetails =
     \<lparr>TransactionReference = '''', PaidAt = None, DownPayment = 0,
      FinancedAmount = Finite 0, MonthlyPayment = Finite 0, FinancingTerms = 0, InterestRate = 0, BankName = '''',
      AccountNumber = '''', CardLast4 = '''', CardBrand = ''''\<rparr>"

definition exVehicle :: Vehicle where
  "exVehicle =
     \<lparr>Vehicle_ID = exVehicleID, OwnerID = exSeller, Make = ''Toyota'', Model = ''Camry'',
      Year = 2020, Price = 25000, Mileage = 15000, Vehicle_Status = VehicleStatusActive,
      Vehicle_Location = \<lparr>City = ''Lagos'', State = ''Lagos'', Country = ''Nigeria''\<rparr>,
      Images = [], Meta = \<lparr>Color = '''', Transmission = '''', FuelType = ''''\<rparr>,
      Vehicle_CreatedAt = 100, Vehicle_UpdatedAt = 100\<rparr>"

definition exTransaction :: Transaction where
  "exTransaction =
     \<lparr>ID = exTxnID, VehicleID = exVehicleID, SellerID = exSeller, BuyerID = exBuyer,
      Type = TransactionTypeSale, Status = TransactionStatusPending, Amount = 25000,
      Currency = ''USD'', PaymentMethod = PaymentMethodCash, PaymentDetails = exNoDetails,
      InspectionID = None, Notes = '''', CompletedAt = None, CancelledAt = None,
      CreatedAt = 1000, UpdatedAt = 1000\<rparr>"

definition exStore :: db where
  "exStore =
     \<lparr>transactions = [exTxnID \<mapsto> exTransaction], vehicles = [exVehicleID \<mapsto> exVehicle]\<rparr>"

text \<open>The same store before the sale was created, for runs that start with \<open>Create\<close>.\<close>

definition exEmptyStore :: db where
  "exEmptyStore = \<lparr>transactions = Map.empty, vehicles = [exVehicleID \<mapsto> exVehicle]\<rparr>"

text \<open>A store whose pending sale refers to a vehicle that is not in the collection.\<close>

definition exOrphanStore :: db where
  "exOrphanStore = \<lparr>transactions = [exTxnID \<mapsto> exTransaction], vehicles = Map.empty\<rparr>"

definition exCashReq :: CreateTransactionRequest where
  "exCashReq =
     \<lparr>CreateReq_VehicleID = exVehicleHex, CreateReq_BuyerID = exBuyerHex,
      CreateReq_Amount = 25000, CreateReq_Currency = ''USD'',
      CreateReq_PaymentMethod = PaymentMethodCash, CreateReq_InspectionID = '''',
      CreateReq_Notes = '''', CreateReq_PaymentDetails = exNoDetails\<rparr>"

definition exFinancingReq :: "real \<Rightarrow> CreateTransactionRequest" where
  "exFinancingReq dp =
     exCashReq\<lparr>CreateReq_Amount := 30000, CreateReq_PaymentMethod := PaymentMethodFinancing,
               CreateReq_PaymentDetails :=
                 exNoDetails\<lparr>DownPayment := dp, FinancingTerms := 60, InterestRate := 3.5\<rparr>\<rparr>"

definition exBankReq :: "string \<Rightarrow> CreateTransactionRequest" where
  "exBankReq bank =
     exCashReq\<lparr>CreateReq_PaymentMethod := PaymentMethodBankTransfer,
               CreateReq_PaymentDetails := exNoDetails\<lparr>BankName := bank\<rparr>\<rparr>"

definition exFinancingTxn :: "real \<Rightarrow> real \<Rightarrow> int \<Rightarrow> real \<Rightarrow> Transaction" where
  "exFinancingTxn amount dp terms rate =
     exTransaction\<lparr>Amount := amount, PaymentMethod := PaymentMethodFinancing,
                   PaymentDetails :=
                     exNoDetails\<lparr>DownPayment := dp, FinancingTerms := terms,
                                 InterestRate := rate\<rparr>\<rparr>"

text \<open>
  The float nearest to \<open>1e-14\<close>, an interest rate in percent, and the financing of
  30000 with down payment 10000 over 60 months at that rate, as a request and as the
  transaction built from it.
\<close>

definition exTinyRate :: real where
  "exTinyRate = 6338253001141147 / 2 ^ 99"

definition exTinyRateReq :: CreateTransactionRequest where
  "exTinyRateReq =
     exCashReq\<lparr>CreateReq_Amount := 30000, CreateReq_PaymentMethod := PaymentMethodFinancing,
               CreateReq_PaymentDetails :=
                 exNoDetails\<lparr>DownPayment := 10000, FinancingTerms := 60,
                             InterestRate := exTinyRate\<rparr>\<rparr>"

definition exTinyRateTxn :: Transaction where
  "exTinyRateTxn = exFinancingTxn 30000 10000 60 exTinyRate"

text \<open>A financing request without down payment, for a vehicle that is not in the store.\<close>

definition exAbsentVehicleReq :: CreateTransactionRequest where
  "exAbsentVehicleReq = (exFinancingReq 0)\<lparr>CreateReq_VehicleID := exAbsentHex\<rparr>"

definition exCompleteReq :: CompleteTransactionRequest where
  "exCompleteReq = \<lparr>CompleteReq_TransactionReference = ''TXN1'', CompleteReq_Notes = ''''\<rparr>"

definition exStatusReq :: "string \<Rightarrow> UpdateTransactionRequest" where
  "exStatusReq st =
     \<lparr>UpdateReq_Status = st, UpdateReq_PaymentDetails = None, UpdateReq_Notes = ''''\<rparr>"

text \<open>The example store after the seller has completed the sale at time 2000.\<close>

definition exCompletedStore :: db where
  "exCompletedStore =
     fst (CompleteTransaction noFault exStore exTxnHex exCompleteReq exSeller 2000)"

section \<open>Auxiliary facts\<close>

lemmas const_defs =
  TransactionStatusPending_def TransactionStatusCompleted_def
  TransactionStatusCancelled_def TransactionStatusFailed_def
  TransactionTypePurchase_def TransactionTypeSale_def
  PaymentMethodCash_def PaymentMethodBankTransfer_def
  PaymentMethodCard_def PaymentMethodFinancing_def
  VehicleStatusActive_def VehicleStatusSold_def VehicleStatusArchived_def

lemmas http_defs =
  StatusOK_def StatusCreated_def StatusBadRequest_def StatusUnauthorized_def
  StatusForbidden_def StatusNotFound_def StatusInternalServerError_def

lemma hex_seller: "ObjectIDFromHex exSellerHex = Some exSeller"
  by (simp add: ObjectIDFromHex_def exSellerHex_def exSeller_def fromHexChar_def)

lemma hex_buyer: "ObjectIDFromHex exBuyerHex = Some exBuyer"
  by (simp add: ObjectIDFromHex_def exBuyerHex_def exBuyer_def fromHexChar_def)

lemma hex_other: "ObjectIDFromHex exOtherHex = Some exOther"
  by (simp add: ObjectIDFromHex_def exOtherHex_def exOther_def fromHexChar_def)

lemma hex_vehicle: "ObjectIDFromHex exVehicleHex = Some exVehicleID"
  by (simp add: ObjectIDFromHex_def exVehicleHex_def exVehicleID_def fromHexChar_def)

lemma hex_txn: "ObjectIDFromHex exTxnHex = Some exTxnID"
  by (simp add: ObjectIDFromHex_def exTxnHex_def exTxnID_def fromHexChar_def)

lemma hex_absent: "ObjectIDFromHex exAbsentHex = Some exAbsentID"
  by (simp add: ObjectIDFromHex_def exAbsentHex_def exAbsentID_def fromHexChar_def)

lemmas hex_simps = hex_seller hex_buyer hex_other hex_vehicle hex_txn hex_absent

lemma ex_ids_distinct:
  "exSeller \<noteq> exBuyer" "exBuyer \<noteq> exSeller" "exOther \<noteq> exSeller" "exOther \<noteq> exBuyer"
  "exSeller \<noteq> exOther" "exBuyer \<noteq> exOther" "exAbsentID \<noteq> exVehicleID"
  "exAbsentID \<noteq> exTxnID"
  by (simp_all add: exSeller_def exBuyer_def exOther_def exAbsentID_def exVehicleID_def
        exTxnID_def)

lemma exStore_simps:
  "transactions exStore exTxnID = Some exTransaction"
  "vehicles exStore exVehicleID = Some exVehicle"
  "vehicles exStore = [exVehicleID \<mapsto> exVehicle]"
  "transactions exStore = [exTxnID \<mapsto> exTransaction]"
  by (simp_all add: exStore_def)

lemma exTransaction_simps:
  "SellerID exTransaction = exSeller" "BuyerID exTransaction = exBuyer"
  "VehicleID exTransaction = exVehicleID" "Status exTransaction = TransactionStatusPending"
  by (simp_all add: exTransaction_def)

lemma noFault_simp: "noFault c = False"
  by (simp add: noFault_def)

section \<open>Payment details\<close>

text \<open>
  C5. The payment-detail validation of a Create request rejects a financing request exactly
  when the down payment is at most 0, or at least the amount, or the term is at most 0, or
  the interest rate is negative; it rejects a bank-transfer request exactly when the bank
  name is empty.
\<close>

theorem validatePaymentDetails_rejects_iff:
  "(CreateReq_PaymentMethod r = PaymentMethodFinancing \<longrightarrow>
      (validatePaymentDetails r \<noteq> None) =
        (DownPayment (CreateReq_PaymentDetails r) \<le> 0 \<or>
         DownPayment (CreateReq_PaymentDetails r) \<ge> CreateReq_Amount r \<or>
         FinancingTerms (CreateReq_PaymentDetails r) \<le> 0 \<or>
         InterestRate (CreateReq_PaymentDetails r) < 0)) \<and>
   (CreateReq_PaymentMethod r = PaymentMethodBankTransfer \<longrightarrow>
      (validatePaymentDetails r \<noteq> None) = (BankName (CreateReq_PaymentDetails r) = ''''))"
  by (simp add: validatePaymentDetails_def const_defs)

theorem validatePaymentDetails_rejects_iff_witness:
  "validatePaymentDetails (exFinancingReq 0) \<noteq> None \<and>
   validatePaymentDetails (exFinancingReq 30000) \<noteq> None \<and>
   validatePaymentDetails (exFinancingReq 10000) = None \<and>
   validatePaymentDetails (exBankReq '''') \<noteq> None \<and>
   validatePaymentDetails (exBankReq ''Test Bank'') = None"
  using validatePaymentDetails_rejects_iff [of "exFinancingReq 0"]
        validatePaymentDetails_rejects_iff [of "exFinancingReq 30000"]
        validatePaymentDetails_rejects_iff [of "exFinancingReq 10000"]
        validatePaymentDetails_rejects_iff [of "exBankReq ''''"]
        validatePaymentDetails_rejects_iff [of "exBankReq ''Test Bank''"]
  by (simp add: exFinancingReq_def exBankReq_def exCashReq_def exNoDetails_def const_defs)

section \<open>Cancel\<close>

text \<open>
  C7. A Cancel call that succeeds found a pending transaction under the given identifier;
  it stores that transaction with status cancelled and cancelledAt set to the time of the
  call, and leaves the vehicle collection, hence the referenced vehicle with its owner and
  status, as it was.
\<close>

theorem CancelTransaction_success_effect:
  assumes "CancelTransaction faulty s idHex notes userID now = (s', Inr t')"
  shows "\<exists>objectID t.
           ObjectIDFromHex idHex = Some objectID \<and> transactions s objectID = Some t \<and>
           Status t = TransactionStatusPending \<and>
           Status t' = TransactionStatusCancelled \<and> CancelledAt t' = Some now \<and>
           transactions s' = (transactions s)(objectID \<mapsto> t') \<and>
           vehicles s' = vehicles s"
  using assms
  by (auto simp: CancelTransaction_def FindOne_def FindOneAndUpdate_def cancelSet_def Let_def
           split: option.splits if_splits sum.splits prod.splits)

lemma ex_cancel:
  "CancelTransaction noFault exStore exTxnHex ''buyer withdrew'' exBuyer 2000 =
     (exStore\<lparr>transactions := [exTxnID \<mapsto> cancelSet ''buyer withdrew'' 2000 exTransaction]\<rparr>,
      Inr (cancelSet ''buyer withdrew'' 2000 exTransaction))"
  by (simp add: CancelTransaction_def hex_simps FindOne_def FindOneAndUpdate_def noFault_simp
        exStore_simps exTransaction_simps ex_ids_distinct)

theorem CancelTransaction_success_effect_witness:
  "\<exists>s' t'. CancelTransaction noFault exStore exTxnHex ''buyer withdrew'' exBuyer 2000 = (s', Inr t')
      \<and> Status t' = TransactionStatusCancelled \<and> CancelledAt t' = Some 2000
      \<and> vehicles s' exVehicleID = Some exVehicle"
  using CancelTransaction_success_effect [OF ex_cancel] ex_cancel
  by (auto simp: exStore_simps)

section \<open>Authorization\<close>

lemma exCompletedStore_eq:
  "CompleteTransaction noFault exStore exTxnHex exCompleteReq exSeller 2000 =
     (\<lparr>transactions = [exTxnID \<mapsto> completeSet exCompleteReq 2000 exTransaction],
       vehicles = [exVehicleID \<mapsto> vehicleSet exBuyer 2000 exVehicle]\<rparr>,
      Inr (completeSet exCompleteReq 2000 exTransaction))"
  by (simp add: CompleteTransaction_def WithSession_def completeCallback_def hex_simps
        FindOne_def FindOneAndUpdate_def UpdateOne_def noFault_simp exStore_def
        exTransaction_simps ex_ids_distinct completeSet_def exCompleteReq_def)

lemma completeSet_fields:
  "Status (completeSet req now t) = TransactionStatusCompleted"
  "CompletedAt (completeSet req now t) = Some now"
  "PaidAt (PaymentDetails (completeSet req now t)) = Some now"
  "TransactionReference (PaymentDetails (completeSet req now t)) =
     CompleteReq_TransactionReference req"
  "VehicleID (completeSet req now t) = VehicleID t"
  "BuyerID (completeSet req now t) = BuyerID t"
  "SellerID (completeSet req now t) = SellerID t"
  by (simp_all add: completeSet_def Let_def)

text \<open>
  C3. For a pending transaction that the lookup returns: Complete by a caller other than
  the seller leaves the store as it was and returns the error that the handler answers with
  403 Forbidden, so Complete succeeds only for the seller; Cancel by a caller who is neither
  seller nor buyer leaves the store as it was and returns the error answered with 403
  Forbidden, so Cancel succeeds only for the seller or the buyer.
\<close>

theorem Complete_Cancel_authorization:
  assumes "ObjectIDFromHex idHex = Some objectID"
      and "FindOne (faulty TxnFindOne) (transactions s) objectID = Inr t"
      and "Status t = TransactionStatusPending"
  shows "(userID \<noteq> SellerID t \<longrightarrow>
            CompleteTransaction faulty s idHex req userID now =
              (s, Inl (ErrorsNew ''only the seller can complete this transaction''))) \<and>
         completeErrorStatus (ErrorsNew ''only the seller can complete this transaction'')
           = StatusForbidden \<and>
         (\<forall>s' t'. CompleteTransaction faulty s idHex req userID now = (s', Inr t')
            \<longrightarrow> userID = SellerID t) \<and>
         (userID \<noteq> SellerID t \<and> userID \<noteq> BuyerID t \<longrightarrow>
            CancelTransaction faulty s idHex notes userID now =
              (s, Inl (ErrorsNew ''you are not authorized to cancel this transaction''))) \<and>
         cancelErrorStatus (ErrorsNew ''you are not authorized to cancel this transaction'')
           = StatusForbidden \<and>
         (\<forall>s' t'. CancelTransaction faulty s idHex notes userID now = (s', Inr t')
            \<longrightarrow> userID = SellerID t \<or> userID = BuyerID t)"
proof -
  have c: "userID \<noteq> SellerID t \<Longrightarrow>
            CompleteTransaction faulty s idHex req userID now =
              (s, Inl (ErrorsNew ''only the seller can complete this transaction''))"
    using assms by (auto simp: CompleteTransaction_def)
  have x: "userID \<noteq> SellerID t \<and> userID \<noteq> BuyerID t \<Longrightarrow>
            CancelTransaction faulty s idHex notes userID now =
              (s, Inl (ErrorsNew ''you are not authorized to cancel this transaction''))"
    using assms by (auto simp: CancelTransaction_def)
  have cs: "completeErrorStatus (ErrorsNew ''only the seller can complete this transaction'')
              = StatusForbidden"
    by (simp add: completeErrorStatus_def)
  have xs: "cancelErrorStatus (ErrorsNew ''you are not authorized to cancel this transaction'')
              = StatusForbidden"
    by (simp add: cancelErrorStatus_def)
  from c x cs xs show ?thesis by (metis Inl_Inr_False prod.inject)
qed

lemma ex_find: "FindOne (noFault TxnFindOne) (transactions exStore) exTxnID = Inr exTransaction"
  by (simp add: FindOne_def noFault_simp exStore_simps)

theorem Complete_Cancel_authorization_witness:
  "CompleteTransaction noFault exStore exTxnHex exCompleteReq exBuyer 2000 =
     (exStore, Inl (ErrorsNew ''only the seller can complete this transaction'')) \<and>
   CompleteTransaction noFault exStore exTxnHex exCompleteReq exOther 2000 =
     (exStore, Inl (ErrorsNew ''only the seller can complete this transaction'')) \<and>
   CancelTransaction noFault exStore exTxnHex '''' exOther 2000 =
     (exStore, Inl (ErrorsNew ''you are not authorized to cancel this transaction'')) \<and>
   (\<exists>s' t'. CompleteTransaction noFault exStore exTxnHex exCompleteReq exSeller 2000 = (s', Inr t'))"
proof -
  note buyer = Complete_Cancel_authorization
          [where faulty = noFault and s = exStore and userID = exBuyer and req = exCompleteReq
             and now = 2000, OF hex_txn ex_find exTransaction_simps(4)]
  note other = Complete_Cancel_authorization
          [where faulty = noFault and s = exStore and userID = exOther and req = exCompleteReq
             and now = 2000, OF hex_txn ex_find exTransaction_simps(4)]
  show ?thesis
    using buyer [of "[]"] other [of "[]"] exCompletedStore_eq
    by (simp add: exTransaction_simps ex_ids_distinct)
qed

section \<open>Complete\<close>

text \<open>
  C9. When the vehicle of a pending transaction is not in the vehicle collection and the
  store answers every call, Complete by the seller succeeds: the transaction is stored as
  completed, the vehicle update matches no document without an error, and the vehicle
  collection is as before, still without that vehicle.
\<close>

theorem Complete_succeeds_without_vehicle:
  assumes "ObjectIDFromHex idHex = Some objectID"
      and "transactions s objectID = Some t"
      and "Status t = TransactionStatusPending"
      and "SellerID t = userID"
      and "vehicles s (VehicleID t) = None"
      and "\<not> faulty TxnFindOne" and "\<not> faulty ClientStartSession"
      and "\<not> faulty TxnFindOneAndUpdate" and "\<not> faulty VehicleUpdateOne"
  shows "\<exists>s' t'. CompleteTransaction faulty s idHex req userID now = (s', Inr t') \<and>
           Status t' = TransactionStatusCompleted \<and>
           transactions s' objectID = Some t' \<and>
           vehicles s' = vehicles s \<and> vehicles s' (VehicleID t') = None"
  using assms
  by (simp add: CompleteTransaction_def WithSession_def completeCallback_def FindOne_def
        FindOneAndUpdate_def UpdateOne_def completeSet_fields)

theorem Complete_succeeds_without_vehicle_witness:
  "\<exists>s' t'. CompleteTransaction noFault exOrphanStore exTxnHex exCompleteReq exSeller 2000
              = (s', Inr t') \<and>
     Status t' = TransactionStatusCompleted \<and> transactions s' exTxnID = Some t' \<and>
     vehicles s' = Map.empty"
proof -
  have "\<exists>s' t'. CompleteTransaction noFault exOrphanStore exTxnHex exCompleteReq exSeller 2000
              = (s', Inr t') \<and>
           Status t' = TransactionStatusCompleted \<and>
           transactions s' exTxnID = Some t' \<and>
           vehicles s' = vehicles exOrphanStore \<and> vehicles s' (VehicleID t') = None"
    by (rule Complete_succeeds_without_vehicle [where t = exTransaction])
       (simp_all add: hex_simps exOrphanStore_def exTransaction_simps noFault_simp)
  then show ?thesis by (auto simp: exOrphanStore_def)
qed

text \<open>
  C1. The code at the failing input: the store answers every call of a Complete by the
  seller except the update of the vehicle. The call fails with the driver's error, yet the
  stored transaction is completed (status, completedAt, paidAt and reference set) while the
  vehicle still belongs to the seller and is still active.
\<close>

theorem CompleteTransaction_partial_write:
  "CompleteTransaction (\<lambda>c. c = VehicleUpdateOne) exStore exTxnHex exCompleteReq exSeller 2000 =
     (exStore\<lparr>transactions := [exTxnID \<mapsto> completeSet exCompleteReq 2000 exTransaction]\<rparr>,
      Inl DriverError) \<and>
   Status (completeSet exCompleteReq 2000 exTransaction) = TransactionStatusCompleted \<and>
   CompletedAt (completeSet exCompleteReq 2000 exTransaction) = Some 2000 \<and>
   PaidAt (PaymentDetails (completeSet exCompleteReq 2000 exTransaction)) = Some 2000 \<and>
   TransactionReference (PaymentDetails (completeSet exCompleteReq 2000 exTransaction)) = ''TXN1'' \<and>
   Status exTransaction = TransactionStatusPending \<and>
   vehicles (exStore\<lparr>transactions := [exTxnID \<mapsto> completeSet exCompleteReq 2000 exTransaction]\<rparr>)
     exVehicleID = Some exVehicle \<and>
   OwnerID exVehicle = exSeller \<and> Vehicle_Status exVehicle = VehicleStatusActive"
  by (simp add: CompleteTransaction_def WithSession_def completeCallback_def hex_simps
        FindOne_def FindOneAndUpdate_def UpdateOne_def exStore_simps
        exTransaction_simps ex_ids_distinct completeSet_fields exCompleteReq_def
        exVehicle_def)

section \<open>Update\<close>

lemma IsValidTransactionStatus_iff:
  "IsValidTransactionStatus st =
     (st \<in> {TransactionStatusPending, TransactionStatusCompleted,
             TransactionStatusCancelled, TransactionStatusFailed})"
  by (auto simp: IsValidTransactionStatus_def)

lemma updateSet_status:
  "Status (updateSet req now t) =
     (if UpdateReq_Status req \<noteq> '''' then UpdateReq_Status req else Status t)"
  by (simp add: updateSet_def Let_def split: option.splits)

text \<open>
  C10. Update neither writes nor reads the vehicle collection: after every call the
  collection is as before, and the returned result and the stored transactions do not depend
  on it. The request validation accepts exactly the empty status and the four statuses
  pending, completed, cancelled and failed. An Update with status completed by the seller
  or the buyer, answered by the store, stores the transaction as completed and leaves its
  vehicle as it was: not transferred.
\<close>

theorem UpdateTransaction_ignores_vehicle:
  "vehicles (fst (UpdateTransaction faulty s idHex req userID now)) = vehicles s \<and>
   snd (UpdateTransaction faulty (s\<lparr>vehicles := vs\<rparr>) idHex req userID now) =
     snd (UpdateTransaction faulty s idHex req userID now) \<and>
   transactions (fst (UpdateTransaction faulty (s\<lparr>vehicles := vs\<rparr>) idHex req userID now)) =
     transactions (fst (UpdateTransaction faulty s idHex req userID now)) \<and>
   ((Validate_Update req = None) =
      (UpdateReq_Status req \<in> {'''', TransactionStatusPending, TransactionStatusCompleted,
                                TransactionStatusCancelled, TransactionStatusFailed})) \<and>
   (ObjectIDFromHex idHex = Some objectID \<and> transactions s objectID = Some t \<and>
    (userID = SellerID t \<or> userID = BuyerID t) \<and>
    \<not> faulty TxnFindOne \<and> \<not> faulty TxnFindOneAndUpdate \<and>
    UpdateReq_Status req = TransactionStatusCompleted \<longrightarrow>
      (\<exists>s' t'. UpdateTransaction faulty s idHex req userID now = (s', Inr t') \<and>
         Status t' = TransactionStatusCompleted \<and> transactions s' objectID = Some t' \<and>
         vehicles s' = vehicles s))"
proof -
  have a: "vehicles (fst (UpdateTransaction faulty s idHex req userID now)) = vehicles s"
    by (simp add: UpdateTransaction_def FindOne_def FindOneAndUpdate_def
          split: option.splits sum.splits prod.splits)
  have b: "snd (UpdateTransaction faulty (s\<lparr>vehicles := vs\<rparr>) idHex req userID now) =
             snd (UpdateTransaction faulty s idHex req userID now)"
    by (simp add: UpdateTransaction_def FindOne_def FindOneAndUpdate_def
          split: option.splits sum.splits prod.splits)
  have c: "transactions (fst (UpdateTransaction faulty (s\<lparr>vehicles := vs\<rparr>) idHex req userID now)) =
             transactions (fst (UpdateTransaction faulty s idHex req userID now))"
    by (simp add: UpdateTransaction_def FindOne_def FindOneAndUpdate_def
          split: option.splits sum.splits prod.splits)
  have d: "(Validate_Update req = None) =
      (UpdateReq_Status req \<in> {'''', TransactionStatusPending, TransactionStatusCompleted,
                                TransactionStatusCancelled, TransactionStatusFailed})"
    by (auto simp: Validate_Update_def IsValidTransactionStatus_iff)
  have e: "ObjectIDFromHex idHex = Some objectID \<and> transactions s objectID = Some t \<and>
    (userID = SellerID t \<or> userID = BuyerID t) \<and>
    \<not> faulty TxnFindOne \<and> \<not> faulty TxnFindOneAndUpdate \<and>
    UpdateReq_Status req = TransactionStatusCompleted \<longrightarrow>
      (\<exists>s' t'. UpdateTransaction faulty s idHex req userID now = (s', Inr t') \<and>
         Status t' = TransactionStatusCompleted \<and> transactions s' objectID = Some t' \<and>
         vehicles s' = vehicles s)"
    by (auto simp: UpdateTransaction_def FindOne_def FindOneAndUpdate_def updateSet_status
          TransactionStatusCompleted_def)
  from a b c d e show ?thesis by blast
qed

theorem UpdateTransaction_ignores_vehicle_witness:
  "Validate_Update (exStatusReq TransactionStatusCompleted) = None \<and>
   (\<exists>s' t'. UpdateTransaction noFault exStore exTxnHex (exStatusReq TransactionStatusCompleted)
               exBuyer 2000 = (s', Inr t') \<and>
      Status t' = TransactionStatusCompleted \<and> transactions s' exTxnID = Some t' \<and>
      vehicles s' exVehicleID = Some exVehicle \<and>
      OwnerID exVehicle = exSeller \<and> Vehicle_Status exVehicle = VehicleStatusActive)"
  using UpdateTransaction_ignores_vehicle
          [of noFault exStore exTxnHex "exStatusReq TransactionStatusCompleted" exBuyer 2000
              Map.empty exTxnID exTransaction]
  by (auto simp: hex_simps exStore_simps exTransaction_simps noFault_simp exStatusReq_def
        exVehicle_def)

section \<open>Statuses along a run\<close>

lemma calculateFinancingDetails_Status [simp]:
  "Status (calculateFinancingDetails t) = Status t"
  by (simp add: calculateFinancingDetails_def Let_def)

lemma cancelSet_fields:
  "Status (cancelSet notes now t) = TransactionStatusCancelled"
  "CancelledAt (cancelSet notes now t) = Some now"
  by (simp_all add: cancelSet_def Let_def)

lemma Create_statusesIn:
  assumes "statusesIn S s" and "TransactionStatusPending \<in> S"
  shows "statusesIn S (fst (CreateTransaction faulty s req sellerID now newID))"
  using assms
  by (auto simp: statusesIn_def CreateTransaction_def FindOne_def InsertOne_def
        setTransactionID_def Let_def split: option.splits if_splits)

lemma Update_statusesIn:
  assumes "statusesIn S s" and "UpdateReq_Status req = [] \<or> UpdateReq_Status req \<in> S"
  shows "statusesIn S (fst (UpdateTransaction faulty s idHex req userID now))"
  using assms
  by (auto simp: statusesIn_def UpdateTransaction_def FindOne_def FindOneAndUpdate_def
        updateSet_status split: option.splits if_splits)

lemma Complete_statusesIn:
  assumes "statusesIn S s" and "TransactionStatusCompleted \<in> S"
  shows "statusesIn S (fst (CompleteTransaction faulty s idHex req userID now))"
  using assms
  by (auto simp: statusesIn_def CompleteTransaction_def WithSession_def completeCallback_def
        FindOne_def FindOneAndUpdate_def UpdateOne_def completeSet_fields
        split: option.splits if_splits)

lemma Cancel_statusesIn:
  assumes "statusesIn S s" and "TransactionStatusCancelled \<in> S"
  shows "statusesIn S (fst (CancelTransaction faulty s idHex notes userID now))"
  using assms
  by (auto simp: statusesIn_def CancelTransaction_def FindOne_def FindOneAndUpdate_def
        cancelSet_fields split: option.splits if_splits)

lemma step_statusesIn:
  assumes "statusesIn S s"
      and "TransactionStatusPending \<in> S" and "TransactionStatusCompleted \<in> S"
      and "TransactionStatusCancelled \<in> S"
      and "\<forall>st. updatesStatusTo st c \<longrightarrow> st = [] \<or> st \<in> S"
  shows "statusesIn S (step s c)"
proof (cases c)
  case (Create faulty req sellerID now newID)
  then show ?thesis using assms(1,2) by (simp add: Create_statusesIn)
next
  case (Update faulty idHex req userID now)
  then have "UpdateReq_Status req = [] \<or> UpdateReq_Status req \<in> S"
    using assms(5) by simp
  then show ?thesis using assms(1) Update by (simp add: Update_statusesIn)
next
  case (Complete faulty idHex req userID now)
  then show ?thesis using assms(1,3) by (simp add: Complete_statusesIn)
next
  case (Cancel faulty idHex msg userID now)
  then show ?thesis using assms(1,4) by (simp add: Cancel_statusesIn)
qed

lemma run_statusesIn:
  assumes "statusesIn S s"
      and "TransactionStatusPending \<in> S" and "TransactionStatusCompleted \<in> S"
      and "TransactionStatusCancelled \<in> S"
      and "\<forall>c \<in> set cs. \<forall>st. updatesStatusTo st c \<longrightarrow> st = [] \<or> st \<in> S"
  shows "statusesIn S (run s cs)"
  using assms(1,5)
proof (induction cs arbitrary: s)
  case Nil
  then show ?case by simp
next
  case (Cons c cs)
  have "statusesIn S (step s c)"
    using Cons.prems assms(2-4) by (intro step_statusesIn) auto
  then show ?case using Cons by simp
qed

lemma exEmptyStore_statuses: "statusesIn S exEmptyStore"
  by (simp add: statusesIn_def exEmptyStore_def)


lemma ex_create:
  "CreateTransaction noFault exEmptyStore exCashReq exSeller 1000 exTxnID =
     (exStore, Inr exTransaction)"
  by (simp add: CreateTransaction_def exCashReq_def hex_simps FindOne_def InsertOne_def
        noFault_simp exEmptyStore_def exStore_def exVehicle_def ex_ids_distinct
        setTransactionID_def exTransaction_def const_defs)

lemma ex_update_status:
  "UpdateTransaction noFault exStore exTxnHex (exStatusReq st) exSeller 2000 =
     (exStore\<lparr>transactions := [exTxnID \<mapsto> updateSet (exStatusReq st) 2000 exTransaction]\<rparr>,
      Inr (updateSet (exStatusReq st) 2000 exTransaction))"
  by (simp add: UpdateTransaction_def hex_simps FindOne_def FindOneAndUpdate_def noFault_simp
        exStore_simps exTransaction_simps)

section \<open>The failed status\<close>

text \<open>
  C8 as stated fails. From the store that holds only the seller's active vehicle, the seller
  creates the sale and then calls Update with status failed, a request that the validation
  of the handler accepts: the stored status is failed.
\<close>

theorem failed_reached_by_Update:
  "map_option Status
     (transactions
        (run exEmptyStore
           [Create noFault exCashReq exSeller 1000 exTxnID,
            Update noFault exTxnHex (exStatusReq TransactionStatusFailed) exSeller 2000])
        exTxnID) = Some TransactionStatusFailed \<and>
   Validate_Update (exStatusReq TransactionStatusFailed) = None"
proof -
  have "Validate_Update (exStatusReq TransactionStatusFailed) = None"
    by (simp add: Validate_Update_def IsValidTransactionStatus_iff exStatusReq_def)
  moreover have "Status (updateSet (exStatusReq TransactionStatusFailed) 2000 exTransaction) =
      TransactionStatusFailed"
    by (simp add: updateSet_status exStatusReq_def TransactionStatusFailed_def)
  ultimately show ?thesis
    by (simp add: ex_create ex_update_status)
qed

text \<open>
  C8, amended. Create, Complete and Cancel never store the status failed, and neither does
  an Update whose request does not carry that status: from a store without a failed
  transaction, after every sequence of Create, Update, Complete and Cancel calls in which no
  Update request has status failed, no stored transaction is failed. (An Update request
  with status failed stores it.)
\<close>

theorem failed_only_by_Update:
  assumes "\<forall>oid t. transactions s oid = Some t \<longrightarrow> Status t \<noteq> TransactionStatusFailed"
      and "\<forall>c \<in> set cs. \<not> updatesStatusTo TransactionStatusFailed c"
  shows "\<forall>oid t. transactions (run s cs) oid = Some t \<longrightarrow> Status t \<noteq> TransactionStatusFailed"
proof -
  have "statusesIn (- {TransactionStatusFailed}) (run s cs)"
  proof (rule run_statusesIn)
    show "statusesIn (- {TransactionStatusFailed}) s"
      using assms(1) by (simp add: statusesIn_def)
    show "\<forall>c \<in> set cs. \<forall>st. updatesStatusTo st c \<longrightarrow> st = [] \<or> st \<in> - {TransactionStatusFailed}"
      using assms(2) by auto
  qed (simp_all add: const_defs)
  then show ?thesis by (simp add: statusesIn_def)
qed

theorem failed_only_by_Update_witness:
  "Status (the (transactions
     (run exEmptyStore
        [Create noFault exCashReq exSeller 1000 exTxnID,
         Update noFault exTxnHex (exStatusReq TransactionStatusCompleted) exSeller 2000])
     exTxnID)) \<noteq> TransactionStatusFailed \<and>
   transactions
     (run exEmptyStore
        [Create noFault exCashReq exSeller 1000 exTxnID,
         Update noFault exTxnHex (exStatusReq TransactionStatusCompleted) exSeller 2000])
     exTxnID \<noteq> None"
proof -
  let ?cs = "[Create noFault exCashReq exSeller 1000 exTxnID,
              Update noFault exTxnHex (exStatusReq TransactionStatusCompleted) exSeller 2000]"
  have a: "\<forall>oid t. transactions exEmptyStore oid = Some t \<longrightarrow> Status t \<noteq> TransactionStatusFailed"
    by (simp add: exEmptyStore_def)
  have b: "\<forall>c \<in> set ?cs. \<not> updatesStatusTo TransactionStatusFailed c"
    by (simp add: exStatusReq_def const_defs)
  have c: "transactions (run exEmptyStore ?cs) exTxnID \<noteq> None"
    by (simp add: ex_create ex_update_status)
  from failed_only_by_Update [OF a b] c show ?thesis by auto
qed

section \<open>Create\<close>

lemma ex_hex_nonempty:
  "exSellerHex \<noteq> []" "exBuyerHex \<noteq> []" "exOtherHex \<noteq> []" "exVehicleHex \<noteq> []"
  "exAbsentHex \<noteq> []"
  by (simp_all add: exSellerHex_def exBuyerHex_def exOtherHex_def exVehicleHex_def
        exAbsentHex_def)

lemma ex_hex_valid:
  "IsValidObjectID exSellerHex" "IsValidObjectID exBuyerHex" "IsValidObjectID exVehicleHex"
  "IsValidObjectID exAbsentHex"
  by (simp_all add: IsValidObjectID_def hex_simps)

lemma exCompletedStore_value:
  "exCompletedStore =
     \<lparr>transactions = [exTxnID \<mapsto> completeSet exCompleteReq 2000 exTransaction],
      vehicles = [exVehicleID \<mapsto> vehicleSet exBuyer 2000 exVehicle]\<rparr>"
  by (simp add: exCompletedStore_def exCompletedStore_eq)

text \<open>
  C4 as stated fails. The handler validates the request, payment details included, before
  the service looks the vehicle up: a financing request without down payment for a vehicle
  that is not in the store is answered with the bad request of the payment details, not
  with the error of the absent vehicle, the first check of the claimed order.
\<close>

theorem Create_order_counterexample:
  "CreateTransaction_handler noFault exStore exAbsentVehicleReq exSellerHex 1000 exAbsentID =
     (exStore, (StatusBadRequest, Inl (ErrorsNew ''downPayment is required for financing''))) \<and>
   ObjectIDFromHex (CreateReq_VehicleID exAbsentVehicleReq) = Some exAbsentID \<and>
   vehicles exStore exAbsentID = None \<and>
   StatusBadRequest \<noteq> StatusNotFound"
proof -
  have b: "bindCreate exAbsentVehicleReq"
    by (simp add: bindCreate_def exAbsentVehicleReq_def exFinancingReq_def exCashReq_def
          ex_hex_nonempty const_defs)
  have v: "Validate_Create exAbsentVehicleReq =
             Some (ErrorsNew ''downPayment is required for financing'')"
    by (simp add: Validate_Create_def validatePaymentDetails_def exAbsentVehicleReq_def
          exFinancingReq_def exCashReq_def ex_hex_nonempty ex_hex_valid
          IsValidPaymentMethod_def exNoDetails_def)
       (simp add: const_defs)
  have "CreateTransaction_handler noFault exStore exAbsentVehicleReq exSellerHex 1000 exAbsentID =
     (exStore, (StatusBadRequest, Inl (ErrorsNew ''downPayment is required for financing'')))"
    by (simp add: CreateTransaction_handler_def b v)
  moreover have "ObjectIDFromHex (CreateReq_VehicleID exAbsentVehicleReq) = Some exAbsentID"
    by (simp add: exAbsentVehicleReq_def hex_simps)
  moreover have "vehicles exStore exAbsentID = None"
    by (simp add: exStore_simps ex_ids_distinct)
  ultimately show ?thesis by (simp add: http_defs)
qed

text \<open>
  C4, amended. The handler validates the request first: a request that fails the binding
  or the validation, in particular the payment-method-specific detail requirements, is
  answered with 400 bad request and the store is not touched, whatever the vehicle. The
  service then checks, in this order: the vehicle exists; the caller is the vehicle's
  owner; the vehicle's status is active; the buyer differs from the seller. The first
  violated check determines its error: the vehicle-not-found error for an absent vehicle,
  the ownership error (403 Forbidden), the availability error and the self-dealing error
  (both 400 bad request).
\<close>

theorem Create_checks_in_order:
  "(\<not> bindCreate req \<or> Validate_Create req \<noteq> None \<or> validatePaymentDetails req \<noteq> None \<longrightarrow>
      fst (CreateTransaction_handler faulty s req userIDStr now newID) = s \<and>
      fst (snd (CreateTransaction_handler faulty s req userIDStr now newID)) = StatusBadRequest) \<and>
   (ObjectIDFromHex (CreateReq_VehicleID req) = Some vehicleID \<and>
    ObjectIDFromHex (CreateReq_BuyerID req) = Some buyerID \<and> \<not> faulty VehicleFindOne \<longrightarrow>
      (vehicles s vehicleID = None \<longrightarrow>
         CreateTransaction faulty s req sellerID now newID =
           (s, Inl (ErrorsNew ''vehicle not found''))) \<and>
      (\<forall>v. vehicles s vehicleID = Some v \<and> OwnerID v \<noteq> sellerID \<longrightarrow>
         CreateTransaction faulty s req sellerID now newID =
           (s, Inl (ErrorsNew ''you are not the owner of this vehicle''))) \<and>
      (\<forall>v. vehicles s vehicleID = Some v \<and> OwnerID v = sellerID \<and>
           Vehicle_Status v \<noteq> VehicleStatusActive \<longrightarrow>
         CreateTransaction faulty s req sellerID now newID =
           (s, Inl (ErrorsNew ''vehicle is not available for sale''))) \<and>
      (\<forall>v. vehicles s vehicleID = Some v \<and> OwnerID v = sellerID \<and>
           Vehicle_Status v = VehicleStatusActive \<and> buyerID = sellerID \<longrightarrow>
         CreateTransaction faulty s req sellerID now newID =
           (s, Inl (ErrorsNew ''cannot create transaction with yourself'')))) \<and>
   createErrorStatus (ErrorsNew ''you are not the owner of this vehicle'') = StatusForbidden \<and>
   createErrorStatus (ErrorsNew ''vehicle is not available for sale'') = StatusBadRequest \<and>
   createErrorStatus (ErrorsNew ''cannot create transaction with yourself'') = StatusBadRequest"
proof -
  have pv: "Validate_Create req \<noteq> None" if "validatePaymentDetails req \<noteq> None"
    using that by (simp add: Validate_Create_def)
  have h: "\<not> bindCreate req \<or> Validate_Create req \<noteq> None \<or> validatePaymentDetails req \<noteq> None \<longrightarrow>
      fst (CreateTransaction_handler faulty s req userIDStr now newID) = s \<and>
      fst (snd (CreateTransaction_handler faulty s req userIDStr now newID)) = StatusBadRequest"
    using pv by (auto simp: CreateTransaction_handler_def)
  have sv: "ObjectIDFromHex (CreateReq_VehicleID req) = Some vehicleID \<and>
    ObjectIDFromHex (CreateReq_BuyerID req) = Some buyerID \<and> \<not> faulty VehicleFindOne \<longrightarrow>
      (vehicles s vehicleID = None \<longrightarrow>
         CreateTransaction faulty s req sellerID now newID =
           (s, Inl (ErrorsNew ''vehicle not found''))) \<and>
      (\<forall>v. vehicles s vehicleID = Some v \<and> OwnerID v \<noteq> sellerID \<longrightarrow>
         CreateTransaction faulty s req sellerID now newID =
           (s, Inl (ErrorsNew ''you are not the owner of this vehicle''))) \<and>
      (\<forall>v. vehicles s vehicleID = Some v \<and> OwnerID v = sellerID \<and>
           Vehicle_Status v \<noteq> VehicleStatusActive \<longrightarrow>
         CreateTransaction faulty s req sellerID now newID =
           (s, Inl (ErrorsNew ''vehicle is not available for sale''))) \<and>
      (\<forall>v. vehicles s vehicleID = Some v \<and> OwnerID v = sellerID \<and>
           Vehicle_Status v = VehicleStatusActive \<and> buyerID = sellerID \<longrightarrow>
         CreateTransaction faulty s req sellerID now newID =
           (s, Inl (ErrorsNew ''cannot create transaction with yourself'')))"
    by (simp add: CreateTransaction_def FindOne_def)
  have st: "createErrorStatus (ErrorsNew ''you are not the owner of this vehicle'') = StatusForbidden"
    "createErrorStatus (ErrorsNew ''vehicle is not available for sale'') = StatusBadRequest"
    "createErrorStatus (ErrorsNew ''cannot create transaction with yourself'') = StatusBadRequest"
    by (simp_all add: createErrorStatus_def)
  from h sv st show ?thesis by blast
qed

theorem Create_checks_in_order_witness:
  "fst (snd (CreateTransaction_handler noFault exStore exAbsentVehicleReq exSellerHex 1000
               exAbsentID)) = StatusBadRequest \<and>
   CreateTransaction noFault exStore (exCashReq\<lparr>CreateReq_VehicleID := exAbsentHex\<rparr>)
       exSeller 1000 exAbsentID =
     (exStore, Inl (ErrorsNew ''vehicle not found'')) \<and>
   CreateTransaction noFault exStore exCashReq exOther 1000 exAbsentID =
     (exStore, Inl (ErrorsNew ''you are not the owner of this vehicle'')) \<and>
   CreateTransaction noFault exCompletedStore exCashReq exBuyer 3000 exAbsentID =
     (exCompletedStore, Inl (ErrorsNew ''vehicle is not available for sale'')) \<and>
   CreateTransaction noFault exStore (exCashReq\<lparr>CreateReq_BuyerID := exSellerHex\<rparr>)
       exSeller 1000 exAbsentID =
     (exStore, Inl (ErrorsNew ''cannot create transaction with yourself''))"
proof -
  have pd: "validatePaymentDetails exAbsentVehicleReq \<noteq> None"
    by (simp add: validatePaymentDetails_def exAbsentVehicleReq_def exFinancingReq_def
          exCashReq_def exNoDetails_def)
  have r0: "fst (snd (CreateTransaction_handler noFault exStore exAbsentVehicleReq exSellerHex
                        1000 exAbsentID)) = StatusBadRequest"
    using Create_checks_in_order
            [where req = exAbsentVehicleReq and faulty = noFault and s = exStore
               and userIDStr = exSellerHex and now = 1000 and newID = exAbsentID] pd
    by blast
  have r1: "CreateTransaction noFault exStore (exCashReq\<lparr>CreateReq_VehicleID := exAbsentHex\<rparr>)
       exSeller 1000 exAbsentID = (exStore, Inl (ErrorsNew ''vehicle not found''))"
    using Create_checks_in_order
            [where req = "exCashReq\<lparr>CreateReq_VehicleID := exAbsentHex\<rparr>"
               and faulty = noFault and s = exStore and vehicleID = exAbsentID
               and buyerID = exBuyer and sellerID = exSeller and now = 1000
               and newID = exAbsentID]
    by (simp add: exCashReq_def hex_simps noFault_simp exStore_simps ex_ids_distinct)
  have r2: "CreateTransaction noFault exStore exCashReq exOther 1000 exAbsentID =
     (exStore, Inl (ErrorsNew ''you are not the owner of this vehicle''))"
    using Create_checks_in_order
            [where req = exCashReq and faulty = noFault and s = exStore
               and vehicleID = exVehicleID and buyerID = exBuyer and sellerID = exOther
               and now = 1000 and newID = exAbsentID]
    by (simp add: exCashReq_def hex_simps noFault_simp exStore_simps ex_ids_distinct
          exVehicle_def)
  have r3: "CreateTransaction noFault exCompletedStore exCashReq exBuyer 3000 exAbsentID =
     (exCompletedStore, Inl (ErrorsNew ''vehicle is not available for sale''))"
    using Create_checks_in_order
            [where req = exCashReq and faulty = noFault and s = exCompletedStore
               and vehicleID = exVehicleID and buyerID = exBuyer and sellerID = exBuyer
               and now = 3000 and newID = exAbsentID]
    by (simp add: exCashReq_def hex_simps noFault_simp exCompletedStore_value vehicleSet_def
          const_defs)
  have r4: "CreateTransaction noFault exStore (exCashReq\<lparr>CreateReq_BuyerID := exSellerHex\<rparr>)
       exSeller 1000 exAbsentID =
     (exStore, Inl (ErrorsNew ''cannot create transaction with yourself''))"
    using Create_checks_in_order
            [where req = "exCashReq\<lparr>CreateReq_BuyerID := exSellerHex\<rparr>"
               and faulty = noFault and s = exStore and vehicleID = exVehicleID
               and buyerID = exSeller and sellerID = exSeller and now = 1000
               and newID = exAbsentID]
    by (simp add: exCashReq_def hex_simps noFault_simp exStore_simps exVehicle_def)
  from r0 r1 r2 r3 r4 show ?thesis by simp
qed

section \<open>Terminal statuses\<close>















section \<open>Rounding\<close>

text \<open>
  Facts about \<open>round64\<close>: the binary exponent \<open>ilog2\<close> is the one it should be, an
  integer below \<open>2^53\<close> in magnitude and a power of two are representable, rounding keeps
  a value between two powers of two, and \<open>1 + r\<close> rounds to 1 for a positive \<open>r\<close> of
  at most \<open>2^-53\<close>.
\<close>

lemma powi_Suc: "(2::real) powi (e + 1) = 2 * 2 powi e"
  by (simp add: power_int_add)

lemma powi_pred: "(2::real) powi (e - 1) = 2 powi e / 2"
  by (simp add: power_int_diff)

lemma powi_pos [simp]: "0 < (2::real) powi e"
  by (simp add: zero_less_power_int)

lemma powi_le_iff: "(2::real) powi a \<le> 2 powi b \<longleftrightarrow> a \<le> b"
proof
  assume h: "(2::real) powi a \<le> 2 powi b"
  show "a \<le> b"
  proof (rule ccontr)
    assume "\<not> a \<le> b"
    then have "b < a" by simp
    then have "(2::real) powi b < 2 powi a" by (intro power_int_strict_increasing) auto
    with h show False by simp
  qed
next
  assume "a \<le> b"
  then show "(2::real) powi a \<le> 2 powi b" by (intro power_int_increasing) auto
qed

lemma powi_less_iff: "(2::real) powi a < 2 powi b \<longleftrightarrow> a < b"
  using powi_le_iff [of b a] by (auto simp: not_le [symmetric])

lemma ilog2_bounds:
  "0 < x \<Longrightarrow> 2 powi (ilog2 x) \<le> x \<and> x < 2 powi (ilog2 x + 1)"
proof (induction x rule: ilog2.induct)
  case (1 x)
  show ?case
  proof (cases "2 \<le> x")
    case True
    let ?k = "ilog2 (x / 2)"
    have e: "ilog2 x = ?k + 1" using True by (subst ilog2.simps) simp
    have ih: "2 powi ?k \<le> x / 2 \<and> x / 2 < 2 powi (?k + 1)"
      using 1(1) [OF True] True by simp
    have "2 powi (?k + 1) = 2 * (2::real) powi ?k"
         "2 powi (?k + 1 + 1) = 2 * (2::real) powi (?k + 1)"
      by (rule powi_Suc)+
    with ih show ?thesis unfolding e by linarith
  next
    case False
    show ?thesis
    proof (cases "x < 1")
      case True
      let ?k = "ilog2 (x * 2)"
      have e: "ilog2 x = ?k - 1" using True False 1(3) by (subst ilog2.simps) simp
      have ih: "2 powi ?k \<le> x * 2 \<and> x * 2 < 2 powi (?k + 1)"
        using 1(2) [OF False] True 1(3) by simp
      have "2 powi (?k - 1) = (2::real) powi ?k / 2"
           "2 powi (?k - 1 + 1) = 2 * (2::real) powi (?k - 1)"
           "2 powi (?k + 1) = 2 * (2::real) powi ?k"
        by (rule powi_pred, rule powi_Suc, rule powi_Suc)
      with ih show ?thesis unfolding e by linarith
    next
      case ge1: False
      have e: "ilog2 x = 0" using ge1 False by (subst ilog2.simps) simp
      show ?thesis unfolding e using ge1 False by simp
    qed
  qed
qed

lemma ilog2_unique:
  assumes "2 powi k \<le> x" and "x < 2 powi (k + 1)"
  shows "ilog2 x = k"
proof -
  have "0 < (2::real) powi k" by simp
  then have pos: "0 < x" using assms(1) by linarith
  note b = ilog2_bounds [OF pos]
  have "2 powi k < (2::real) powi (ilog2 x + 1)" using assms(1) b by linarith
  then have "k < ilog2 x + 1" by (simp add: powi_less_iff)
  moreover have "2 powi (ilog2 x) < (2::real) powi (k + 1)" using assms(2) b by linarith
  then have "ilog2 x < k + 1" by (simp add: powi_less_iff)
  ultimately show ?thesis by simp
qed

lemma roundHalfEven_int [simp]: "roundHalfEven (of_int j) = j"
  by (simp add: roundHalfEven_def)

lemma roundHalfEven_bounds: "\<lfloor>q\<rfloor> \<le> roundHalfEven q \<and> roundHalfEven q \<le> \<lfloor>q\<rfloor> + 1"
  by (simp add: roundHalfEven_def Let_def)

lemma ilog2_0 [simp]: "ilog2 0 = 0"
  by (subst ilog2.simps) simp

lemma roundHalfEven_0 [simp]: "roundHalfEven 0 = 0"
  by (simp add: roundHalfEven_def)

lemma round64_0 [simp]: "round64 0 = Finite 0"
proof -
  have "\<not> (2::real) powi 1024 \<le> 0" using powi_pos [of 1024] by linarith
  then show ?thesis by (simp add: round64_def Let_def del: power_int_numeral)
qed

lemma round64_of_int:
  assumes "\<bar>k\<bar> < 2 ^ 53"
  shows "round64 (of_int k) = Finite (of_int k)"
proof (cases "k = 0")
  case True
  then show ?thesis by simp
next
  case False
  let ?a = "\<bar>real_of_int k\<bar>"
  let ?e = "ilog2 ?a"
  have a1: "1 \<le> ?a" using False by (simp flip: of_int_abs)
  have a2: "?a < 2 powi 53" using assms by (simp flip: of_int_abs add: of_int_less_iff [symmetric] del: of_int_less_iff)
  have pos: "0 < ?a" using a1 by linarith
  note b = ilog2_bounds [OF pos]
  have "(2::real) powi 0 < 2 powi (?e + 1)" using a1 b by simp
  then have e0: "0 \<le> ?e" by (simp only: powi_less_iff)
  have "(2::real) powi ?e < 2 powi 53" using a2 b by linarith
  then have e52: "?e \<le> 52" by (simp only: powi_less_iff)
  let ?N = "nat (52 - ?e)"
  have u: "(2::real) powi (?e - 52) = 1 / 2 ^ ?N"
  proof -
    have "(2::real) powi (?e - 52) = 2 powi (- (52 - ?e))" by simp
    also have "\<dots> = inverse (2 powi (52 - ?e))" by (rule power_int_minus)
    also have "\<dots> = inverse (2 ^ ?N)" using e52 by (simp add: power_int_nonneg_exp)
    finally show ?thesis by (simp add: inverse_eq_divide)
  qed
  have mx: "max ?e (- 1022) = ?e" using e0 by simp
  have q: "real_of_int k / (1 / 2 ^ ?N) = of_int (k * 2 ^ ?N)" by simp
  have y: "of_int (roundHalfEven (real_of_int k / (1 / 2 ^ ?N))) * (1 / 2 ^ ?N) = real_of_int k"
    unfolding q roundHalfEven_int by simp
  have big: "\<not> 2 powi 1024 \<le> ?a"
  proof -
    have "(2::real) powi 53 \<le> 2 powi 1024" by (rule iffD2 [OF powi_le_iff]) simp
    then show ?thesis using a2 by linarith
  qed
  show ?thesis
    unfolding round64_def Let_def mx u y using big by (simp only: if_False)
qed

lemma round64_normal:
  assumes "0 < x" and "- 1022 \<le> ilog2 x" and "ilog2 x \<le> 1022"
  shows "\<exists>y. round64 x = Finite y \<and> 2 powi (ilog2 x) \<le> y \<and> y \<le> 2 powi (ilog2 x + 1)"
proof -
  let ?e = "ilog2 x"
  let ?u = "(2::real) powi (?e - 52)"
  let ?q = "x / ?u"
  let ?m = "roundHalfEven ?q"
  note b = ilog2_bounds [OF assms(1)]
  have upos: "0 < ?u" by simp
  have lo: "2 ^ 52 * ?u = 2 powi ?e"
  proof -
    have "(2::real) powi ?e = 2 powi (52 + (?e - 52))" by simp
    also have "\<dots> = 2 powi 52 * ?u" by (rule power_int_add) simp
    finally show ?thesis by simp
  qed
  have hi: "2 ^ 53 * ?u = 2 powi (?e + 1)"
  proof -
    have "?e + 1 = 53 + (?e - 52)" by simp
    then have "(2::real) powi (?e + 1) = 2 powi (53 + (?e - 52))" by (simp only:)
    also have "\<dots> = 2 powi 53 * ?u" by (rule power_int_add) simp
    finally show ?thesis by simp
  qed
  have q1: "2 ^ 52 \<le> ?q" using b lo upos by (simp add: pos_le_divide_eq)
  have q2: "?q < 2 ^ 53" using b hi upos by (simp add: pos_divide_less_eq)
  have f1: "2 ^ 52 \<le> \<lfloor>?q\<rfloor>"
  proof -
    have "real_of_int (2 ^ 52) \<le> ?q" using q1 by simp
    then show ?thesis by (simp only: le_floor_iff)
  qed
  have f2: "\<lfloor>?q\<rfloor> + 1 \<le> 2 ^ 53"
  proof -
    have "?q < real_of_int (2 ^ 53)" using q2 by simp
    then have "\<lfloor>?q\<rfloor> < 2 ^ 53" by (simp only: floor_less_iff)
    then show ?thesis by simp
  qed
  have m1: "2 ^ 52 \<le> ?m" and m2: "?m \<le> 2 ^ 53"
    using roundHalfEven_bounds [of ?q] f1 f2 by linarith+
  have y1: "2 powi ?e \<le> of_int ?m * ?u"
  proof -
    have "(2 ^ 52 :: real) \<le> of_int ?m" using m1 by (simp flip: of_int_le_iff)
    then have "2 ^ 52 * ?u \<le> of_int ?m * ?u" using upos by (intro mult_right_mono) simp_all
    with lo show ?thesis by (simp only:)
  qed
  have y2: "of_int ?m * ?u \<le> 2 powi (?e + 1)"
  proof -
    have "of_int ?m \<le> (2 ^ 53 :: real)" using m2 by (simp flip: of_int_le_iff)
    then have "of_int ?m * ?u \<le> 2 ^ 53 * ?u" using upos by (intro mult_right_mono) simp_all
    with hi show ?thesis by (simp only:)
  qed
  have "(2::real) powi (?e + 1) < 2 powi 1024"
    using assms(3) by (intro iffD2 [OF powi_less_iff]) simp
  then have fin: "\<not> 2 powi 1024 \<le> \<bar>of_int ?m * ?u\<bar>"
    using y1 y2 powi_pos [of ?e] by linarith
  have mx: "max ?e (- 1022) = ?e" using assms(2) by simp
  have ab: "\<bar>x\<bar> = x" using assms(1) by simp
  have "round64 x = Finite (of_int ?m * ?u)"
    unfolding round64_def Let_def ab mx using fin by (simp only: if_False)
  then show ?thesis using y1 y2 by blast
qed

lemma round64_powi:
  assumes "- 1022 \<le> b" and "b \<le> 1023"
  shows "round64 (2 powi b) = Finite (2 powi b)"
proof -
  let ?x = "(2::real) powi b"
  let ?u = "(2::real) powi (b - 52)"
  have e: "ilog2 ?x = b" by (rule ilog2_unique) (simp_all add: powi_less_iff)
  have "?x = 2 powi (52 + (b - 52))" by simp
  also have "\<dots> = 2 powi 52 * ?u" by (rule power_int_add) simp
  finally have xu: "?x = 2 ^ 52 * ?u" by simp
  have q: "?x / ?u = real_of_int (2 ^ 52)"
  proof -
    have "?x / ?u = 2 ^ 52 * ?u / ?u" using xu by simp
    then show ?thesis by simp
  qed
  have y: "real_of_int (roundHalfEven (?x / ?u)) * ?u = ?x"
    unfolding q roundHalfEven_int using xu by simp
  have "?x < 2 powi 1024" using assms(2) by (intro iffD2 [OF powi_less_iff]) simp
  then have fin: "\<not> 2 powi 1024 \<le> ?x" by linarith
  have mx: "max b (- 1022) = b" using assms(1) by simp
  have ab: "\<bar>?x\<bar> = ?x" by simp
  show ?thesis
    unfolding round64_def Let_def ab e mx y using fin by (simp only: if_False)
qed

lemma round64_between:
  assumes "2 powi a \<le> x" and "x \<le> 2 powi b" and "- 1022 \<le> a" and "b \<le> 1023"
  shows "\<exists>y. round64 x = Finite y \<and> 2 powi a \<le> y \<and> y \<le> 2 powi b"
proof (cases "x = 2 powi b")
  case True
  have "a \<le> b" using assms(1,2) powi_le_iff [of a b] by linarith
  then show ?thesis using True round64_powi [of b] assms by simp
next
  case False
  then have lt: "x < 2 powi b" using assms(2) by simp
  have pos: "0 < x" using assms(1) powi_pos [of a] by linarith
  note bd = ilog2_bounds [OF pos]
  have "(2::real) powi a < 2 powi (ilog2 x + 1)" using assms(1) bd by linarith
  then have ae: "a \<le> ilog2 x" by (simp add: powi_less_iff)
  have "(2::real) powi (ilog2 x) < 2 powi b" using lt bd by linarith
  then have eb: "ilog2 x + 1 \<le> b" by (simp add: powi_less_iff)
  obtain y where y: "round64 x = Finite y" "2 powi (ilog2 x) \<le> y" "y \<le> 2 powi (ilog2 x + 1)"
    using round64_normal [OF pos] ae eb assms(3,4) by auto
  have "(2::real) powi a \<le> 2 powi (ilog2 x)" using ae by (simp only: powi_le_iff)
  moreover have "(2::real) powi (ilog2 x + 1) \<le> 2 powi b" using eb by (simp only: powi_le_iff)
  ultimately show ?thesis using y by force
qed

lemma round64_one_plus:
  assumes "0 < r" and "r \<le> 2 powi (- 53)"
  shows "round64 (1 + r) = Finite 1"
proof -
  let ?x = "1 + r"
  have r53: "r \<le> 1 / 2 ^ 53" using assms(2) by (simp add: power_int_minus_divide)
  have e: "ilog2 ?x = 0"
  proof (rule ilog2_unique)
    show "2 powi 0 \<le> ?x" using assms(1) by simp
    have "(1::real) / 2 ^ 53 < 1" by simp
    then have "r < 1" using r53 by linarith
    then show "?x < 2 powi (0 + 1)" by simp
  qed
  have u: "(2::real) powi (0 - 52) = 1 / 2 ^ 52" by (simp add: power_int_minus_divide)
  have q: "?x / (1 / 2 ^ 52) = 2 ^ 52 + r * 2 ^ 52" by (simp add: algebra_simps)
  have d1: "0 < r * 2 ^ 52" using assms(1) by simp
  have d2: "r * 2 ^ 52 \<le> 1 / 2"
  proof -
    have "r * 2 ^ 52 \<le> 1 / 2 ^ 53 * 2 ^ 52" using r53 by (simp add: mult_right_mono)
    then show ?thesis by simp
  qed
  have fl: "\<lfloor>(2 ^ 52 + r * 2 ^ 52 :: real)\<rfloor> = 2 ^ 52"
  proof (rule floor_unique)
    show "real_of_int (2 ^ 52) \<le> 2 ^ 52 + r * 2 ^ 52" using d1 by simp
    show "2 ^ 52 + r * 2 ^ 52 < real_of_int (2 ^ 52) + 1" using d2 by simp
  qed
  have m: "roundHalfEven (2 ^ 52 + r * 2 ^ 52) = 2 ^ 52"
    unfolding roundHalfEven_def Let_def fl using d1 d2 by simp
  have ab: "\<bar>?x\<bar> = ?x" using assms(1) by simp
  have one: "real_of_int (2 ^ 52) * (1 / 2 ^ 52) = 1" by simp
  have fin: "\<not> (2::real) powi 1024 \<le> \<bar>1\<bar>"
  proof -
    have "(2::real) powi 0 < 2 powi 1024" by (rule iffD2 [OF powi_less_iff]) simp
    then show ?thesis by simp
  qed
  have mx: "max (0::int) (- 1022) = 0" by simp
  show ?thesis
    unfolding round64_def Let_def ab e mx u q m one using fin by (simp only: if_False)
qed

lemma round64_numeral_consts:
  "round64 1 = Finite 1" "round64 60 = Finite 60" "round64 12 = Finite 12"
  "round64 20000 = Finite 20000" "round64 12000 = Finite 12000" "round64 1000 = Finite 1000"
  using round64_of_int [of 1] round64_of_int [of 60] round64_of_int [of 12]
        round64_of_int [of 20000] round64_of_int [of 12000] round64_of_int [of 1000]
  by simp_all

lemma pow_loop_one: "pow_loop (Finite 1) bound i (Finite 1) = Finite 1"
proof (induction "Finite 1" bound i "Finite 1" rule: pow_loop.induct)
  case (1 bound i)
  show ?case
  proof (cases "i < bound")
    case True
    have "pow_loop (Finite 1) bound i (Finite 1)
            = pow_loop (Finite 1) bound (i + 1) (fmul (Finite 1) (Finite 1))"
      using True by (subst pow_loop.simps) simp
    also have "fmul (Finite 1) (Finite 1) = Finite 1"
      by (simp add: round64_numeral_consts)
    finally show ?thesis using 1 True by (simp add: round64_numeral_consts)
  next
    case False
    then show ?thesis by (subst pow_loop.simps) simp
  qed
qed

section \<open>Financing\<close>

text \<open>
  The calculation agrees with the two examples of the specification: 30000 with down
  payment 10000 finances 20000, and 12000 over 12 months at rate 0 is 1000 a month, the
  divisor being the term, which is not zero.
\<close>

lemma calculateFinancingDetails_financed_example:
  "FinancedAmount (PaymentDetails (calculateFinancingDetails (exFinancingTxn 30000 10000 60 3.5)))
     = Finite 20000"
  by (simp add: calculateFinancingDetails_def Let_def exFinancingTxn_def fsub_def
        round64_numeral_consts)

lemma calculateFinancingDetails_zero_rate_example:
  "MonthlyPayment (PaymentDetails (calculateFinancingDetails (exFinancingTxn 12000 0 12 0)))
     = Finite 1000"
  by (simp add: calculateFinancingDetails_def Let_def exFinancingTxn_def exNoDetails_def
        fsub_def floatOfInt_def round64_numeral_consts)

text \<open>
  The financing of 30000 with down payment 10000 over 60 months at the rate \<open>1e-14\<close>:
  the value of every float operation of \<open>calculateFinancingDetails\<close>.
\<close>

lemma ex_tiny_payment:
  "validatePaymentDetails exTinyRateReq = None \<and>
   0 < InterestRate (PaymentDetails exTinyRateTxn) \<and>
   FinancedAmount (PaymentDetails (calculateFinancingDetails exTinyRateTxn)) = Finite 20000 \<and>
   MonthlyPayment (PaymentDetails (calculateFinancingDetails exTinyRateTxn)) = PosInf"
proof -
  have valid: "validatePaymentDetails exTinyRateReq = None"
    by (simp add: validatePaymentDetails_def exTinyRateReq_def exCashReq_def exNoDetails_def
          exTinyRate_def)
  have rate: "InterestRate (PaymentDetails exTinyRateTxn) = exTinyRate"
    and amount: "Amount exTinyRateTxn = 30000"
    and down: "DownPayment (PaymentDetails exTinyRateTxn) = 10000"
    and terms: "FinancingTerms (PaymentDetails exTinyRateTxn) = 60"
    by (simp_all add: exTinyRateTxn_def exFinancingTxn_def)
  have pos: "0 < exTinyRate" by (simp add: exTinyRate_def)
  \<comment> \<open>the financed amount\<close>
  have financed: "fsub (Finite 30000) (Finite 10000) = Finite 20000"
    by (simp add: fsub_def round64_numeral_consts)
  \<comment> \<open>the monthly rate: between \<open>2^-58\<close> and \<open>2^-56\<close>\<close>
  have p54: "(2::real) powi (- 54) = 1 / 2 ^ 54" and p53: "(2::real) powi (- 53) = 1 / 2 ^ 53"
    and p58: "(2::real) powi (- 58) = 1 / 2 ^ 58" and p56: "(2::real) powi (- 56) = 1 / 2 ^ 56"
    and p44: "(2::real) powi (- 44) = 1 / 2 ^ 44" and p41: "(2::real) powi (- 41) = 1 / 2 ^ 41"
    by (simp_all add: power_int_minus_divide)
  have "2 powi (- 54) \<le> exTinyRate / 100" and "exTinyRate / 100 \<le> 2 powi (- 53)"
    unfolding p54 p53 by (simp_all add: exTinyRate_def)
  then obtain y1 where y1: "round64 (exTinyRate / 100) = Finite y1"
      "2 powi (- 54) \<le> y1" "y1 \<le> 2 powi (- 53)"
    using round64_between [of "- 54" "exTinyRate / 100" "- 53"] by auto
  have "2 powi (- 58) \<le> y1 / 12" and "y1 / 12 \<le> 2 powi (- 56)"
    using y1(2,3) unfolding p54 p53 p58 p56 by simp_all
  then obtain r where r: "round64 (y1 / 12) = Finite r"
      "2 powi (- 58) \<le> r" "r \<le> 2 powi (- 56)"
    using round64_between [of "- 58" "y1 / 12" "- 56"] by auto
  have rpos: "0 < r" using r(2) powi_pos [of "- 58"] by linarith
  have r53: "r \<le> 2 powi (- 53)"
  proof -
    have "(2::real) powi (- 56) \<le> 2 powi (- 53)" by (rule iffD2 [OF powi_le_iff]) simp
    then show ?thesis using r(3) by linarith
  qed
  have monthly: "fdiv (fdiv (Finite exTinyRate) (Finite 100)) (Finite 12) = Finite r"
    by (simp add: y1(1) r(1))
  \<comment> \<open>\<open>1 + r\<close> rounds to 1 and \<open>pow\<close> returns 1\<close>
  have one: "fadd (Finite 1) (Finite r) = Finite 1"
    using round64_one_plus [OF rpos r53] by simp
  have months: "floatOfInt 60 = Finite 60"
    by (simp add: floatOfInt_def round64_numeral_consts)
  have power: "pow (Finite 1) (Finite 60) = Finite 1"
    by (simp add: pow_def pow_loop_one)
  have divisor: "fsub (Finite 1) (Finite 1) = Finite 0"
    by (simp add: fsub_def)
  \<comment> \<open>the numerator is finite and positive\<close>
  obtain r2 where r2: "round64 r = Finite r2"
      "2 powi (- 58) \<le> r2" "r2 \<le> 2 powi (- 56)"
    using round64_between [of "- 58" r "- 56"] r(2,3) by auto
  have "2 powi (- 44) \<le> 20000 * r2" and "20000 * r2 \<le> 2 powi (- 41)"
    using r2(2,3) unfolding p58 p56 p44 p41 by simp_all
  then obtain z where z: "round64 (20000 * r2) = Finite z" "2 powi (- 44) \<le> z"
    using round64_between [of "- 44" "20000 * r2" "- 41"] by auto
  have zpos: "0 < z" using z(2) powi_pos [of "- 44"] by linarith
  have numerator: "fmul (Finite 20000) (fmul (Finite r) (Finite 1)) = Finite z"
    by (simp add: r2(1) z(1))
  have quotient: "fdiv (Finite z) (Finite 0) = PosInf"
    using zpos by (simp add: signedInf_def)
  have fa: "FinancedAmount (PaymentDetails (calculateFinancingDetails exTinyRateTxn))
              = Finite 20000"
    by (simp add: calculateFinancingDetails_def Let_def amount down financed)
  have mp: "MonthlyPayment (PaymentDetails (calculateFinancingDetails exTinyRateTxn)) = PosInf"
    unfolding calculateFinancingDetails_def Let_def amount down rate terms financed
      monthly one months power divisor numerator quotient
    using rpos by simp
  from valid pos rate fa mp show ?thesis by simp
qed

lemma calculateFinancingDetails_reads:
  assumes "Amount t = Amount t'" and "PaymentDetails t = PaymentDetails t'"
  shows "PaymentDetails (calculateFinancingDetails t) = PaymentDetails (calculateFinancingDetails t')"
  using assms by (simp add: calculateFinancingDetails_def Let_def)

lemma ex_tiny_bind: "bindCreate exTinyRateReq"
  by (simp add: bindCreate_def exTinyRateReq_def exCashReq_def ex_hex_nonempty const_defs)

lemma ex_tiny_valid: "Validate_Create exTinyRateReq = None"
  by (simp add: Validate_Create_def validatePaymentDetails_def exTinyRateReq_def exCashReq_def
        ex_hex_nonempty ex_hex_valid IsValidPaymentMethod_def exNoDetails_def exTinyRate_def)
     (simp add: const_defs)

lemma ex_tiny_create:
  "map_option PaymentDetails
     (transactions (fst (CreateTransaction noFault exEmptyStore exTinyRateReq exSeller 1000 exTxnID))
        exTxnID) = Some (PaymentDetails (calculateFinancingDetails exTinyRateTxn))"
proof -
  let ?t = "\<lparr>ID = NilObjectID, VehicleID = exVehicleID, SellerID = exSeller,
             BuyerID = exBuyer, Type = TransactionTypeSale,
             Status = TransactionStatusPending, Amount = 30000,
             Currency = ''USD'', PaymentMethod = PaymentMethodFinancing,
             PaymentDetails = exNoDetails\<lparr>DownPayment := 10000, FinancingTerms := 60,
                                InterestRate := exTinyRate\<rparr>,
             InspectionID = None, Notes = [], CompletedAt = None, CancelledAt = None,
             CreatedAt = 1000, UpdatedAt = 1000\<rparr>"
  have c: "CreateTransaction noFault exEmptyStore exTinyRateReq exSeller 1000 exTxnID =
     (exEmptyStore\<lparr>transactions := [exTxnID \<mapsto> setTransactionID exTxnID (calculateFinancingDetails ?t)]\<rparr>,
      Inr ((calculateFinancingDetails ?t)\<lparr>ID := exTxnID\<rparr>))"
    by (simp add: CreateTransaction_def exTinyRateReq_def exCashReq_def hex_simps FindOne_def
          InsertOne_def noFault_simp exEmptyStore_def exVehicle_def ex_ids_distinct const_defs
          Let_def)
  have "PaymentDetails (calculateFinancingDetails ?t) =
        PaymentDetails (calculateFinancingDetails exTinyRateTxn)"
    by (rule calculateFinancingDetails_reads)
       (simp_all add: exTinyRateTxn_def exFinancingTxn_def)
  then show ?thesis by (simp add: c setTransactionID_def)
qed

text \<open>
  C6. The code at the failing input: a financing of 30000 with down payment 10000 over 60
  months at an interest rate of \<open>1e-14\<close> percent, a request that passes the binding
  and the validation of the handler. The monthly rate is positive, so the branch of the
  amortization formula is taken; but \<open>1 + r\<close> rounds to 1, \<open>pow\<close> returns 1, the
  divisor \<open>pow - 1\<close> is zero and the numerator is positive: the monthly payment is
  positive infinity, where the formula of the claim gives a finite payment of about 333.33.
  The Create call of the seller stores the transaction with that monthly payment.
\<close>

theorem calculateFinancingDetails_tiny_rate:
  "bindCreate exTinyRateReq \<and> Validate_Create exTinyRateReq = None \<and>
   validatePaymentDetails exTinyRateReq = None \<and>
   0 < InterestRate (PaymentDetails exTinyRateTxn) \<and>
   FinancedAmount (PaymentDetails (calculateFinancingDetails exTinyRateTxn)) = Finite 20000 \<and>
   MonthlyPayment (PaymentDetails (calculateFinancingDetails exTinyRateTxn)) = PosInf \<and>
   map_option MonthlyPayment
     (map_option PaymentDetails
        (transactions
           (fst (CreateTransaction noFault exEmptyStore exTinyRateReq exSeller 1000 exTxnID))
           exTxnID)) = Some PosInf"
  unfolding ex_tiny_create option.map
  using ex_tiny_payment ex_tiny_bind ex_tiny_valid by simp

end
